theory Spec2Isabelle
  imports Complex_Main "HOL-Library.Sublist"
begin

section \<open>Request values\<close>

text \<open>
  The values a field of the parsed JSON body can hold, as the handlers see them after
  \<^verbatim>\<open>const { Nome, Descricao, Preco } = req.body\<close>: a key that is absent
  reads as \<open>undefined\<close>. A finite number is the rational its decimal rendering
  denotes; a JSON number beyond the range of a double parses to an infinity.
\<close>

datatype jsval =
    JUndefined
  | JNull
  | JBool bool
  | JNum rat
  | JInfinity
  | JNegInfinity
  | JStr string
  | JArr "jsval list"
  | JObj "(string \<times> jsval) list"

type_synonym body = "string \<Rightarrow> jsval"

text \<open>
  \<open>req.body\<close>: the object the JSON middleware parsed, or \<open>undefined\<close> when the
  framework leaves it unset for a request without a JSON body.
\<close>

datatype req_body = No_body | Body body

text \<open>\<^verbatim>\<open>!v\<close> of JavaScript.\<close>

fun js_not :: "jsval \<Rightarrow> bool" where
  "js_not JUndefined = True"
| "js_not JNull = True"
| "js_not (JBool b) = (\<not> b)"
| "js_not (JNum q) = (q = 0)"
| "js_not JInfinity = False"
| "js_not JNegInfinity = False"
| "js_not (JStr s) = (s = [])"
| "js_not (JArr xs) = False"
| "js_not (JObj kvs) = False"

text \<open>\<^verbatim>\<open>v == null\<close> of JavaScript.\<close>

fun js_eq_null :: "jsval \<Rightarrow> bool" where
  "js_eq_null JUndefined = True"
| "js_eq_null JNull = True"
| "js_eq_null v = False"

section \<open>The driver: values spliced into the statement\<close>

text \<open>
  \<open>pool.query(sql, values)\<close> replaces each placeholder of the text by the escaped
  value before the statement is sent. A scalar becomes one literal; an infinity is
  written as a bare word; an array becomes its elements separated by commas, an inner
  array in parentheses; an object becomes its entries as \<^verbatim>\<open>`key` = value\<close>
  separated by commas. Inside an array or an object, an object is written as the text
  \<^verbatim>\<open>[object Object]\<close>.
\<close>

datatype sql_lit = SqlNull | SqlBool bool | SqlNum rat | SqlText string

datatype sql_expr =
    E_lit sql_lit
  | E_word string
  | E_row "sql_expr list"
  | E_cmp string sql_expr
  | E_missing

fun escape_nested :: "jsval \<Rightarrow> sql_expr list"
  and arrayToList :: "jsval list \<Rightarrow> sql_expr list" where
  "escape_nested JUndefined = [E_lit SqlNull]"
| "escape_nested JNull = [E_lit SqlNull]"
| "escape_nested (JBool b) = [E_lit (SqlBool b)]"
| "escape_nested (JNum q) = [E_lit (SqlNum q)]"
| "escape_nested JInfinity = [E_word ''Infinity'']"
| "escape_nested JNegInfinity = [E_word ''-Infinity'']"
| "escape_nested (JStr s) = [E_lit (SqlText s)]"
| "escape_nested (JArr xs) = arrayToList xs"
| "escape_nested (JObj kvs) = [E_lit (SqlText ''[object Object]'')]"
| "arrayToList [] = []"
| "arrayToList (JArr ys # xs) = E_row (arrayToList ys) # arrayToList xs"
| "arrayToList (x # xs) = escape_nested x @ arrayToList xs"

text \<open>
  One entry of an object: the key compared with the first expression of the value, then
  the remaining expressions of the value; with no expression of the value, the right-hand
  side is missing.
\<close>

definition entry :: "string \<Rightarrow> sql_expr list \<Rightarrow> sql_expr list" where
  "entry k es = (case es of [] \<Rightarrow> [E_cmp k E_missing] | e # es' \<Rightarrow> E_cmp k e # es')"

definition objectToValues :: "(string \<times> jsval) list \<Rightarrow> sql_expr list" where
  "objectToValues kvs = concat (map (\<lambda>(k, v). entry k (escape_nested v)) kvs)"

fun escape :: "jsval \<Rightarrow> sql_expr list" where
  "escape (JObj kvs) = objectToValues kvs"
| "escape v = escape_nested v"


definition placeholders :: "string \<Rightarrow> nat" where
  "placeholders sql = length (filter (\<lambda>c. c = CHR ''?'') sql)"

text \<open>What stands in place of one placeholder: one literal, one bare word, or more.\<close>

fun literal :: "sql_expr list \<Rightarrow> sql_lit option" where
  "literal [E_lit l] = Some l"
| "literal es = None"

fun bare_word :: "sql_expr list \<Rightarrow> bool" where
  "bare_word [E_word w] = True"
| "bare_word es = False"

definition plain :: "sql_expr list \<Rightarrow> bool" where
  "plain es = (literal es \<noteq> None \<or> bare_word es)"

section \<open>Configuration and the database server\<close>

datatype db_error =
    ER_BAD_DB_ERROR
  | ER_NO_DB_ERROR
  | ER_NO_SUCH_TABLE
  | ER_PARSE_ERROR
  | ER_BAD_FIELD_ERROR
  | ER_WRONG_VALUE_COUNT_ON_ROW
  | ER_BAD_NULL_ERROR
  | ER_DATA_TOO_LONG
  | ER_WARN_DATA_OUT_OF_RANGE
  | ER_TRUNCATED_WRONG_VALUE
  | ER_TRUNCATED_WRONG_VALUE_FOR_FIELD
  | ER_AUTOINC_READ_FAILED
  | ER_DUP_ENTRY

text \<open>
  A row of table \<open>produto\<close>:
  \<^verbatim>\<open>Id INT AUTO_INCREMENT PRIMARY KEY, Nome VARCHAR(255) NOT NULL,
  Descricao VARCHAR(255) NOT NULL, Preco DECIMAL(10,2) NOT NULL\<close>.
  The columns are NOT NULL, so they carry no null value.
\<close>

record produto =
  Id_col :: int
  Nome :: string
  Descricao :: string
  Preco :: rat

record table =
  rows :: "produto list"
  auto_increment :: int

text \<open>
  The server either has no schema \<open>DB_NAME\<close>, or has the schema without the table,
  or has the table.
\<close>

datatype server = NoDatabase | NoTable | Table table

text \<open>
  \<open>DB_NAME\<close> is \<^verbatim>\<open>process.env.DB_NAME\<close>. The other fields are behaviour of the
  database server that the program does not fix, taken as parameters:
  \<^item> \<open>text_of_num\<close>: the text a number bound to a VARCHAR column is stored as;
  \<^item> \<open>num_of_text\<close>: the number a text bound to a DECIMAL column denotes (\<open>None\<close> when
    it is not a number);
  \<^item> \<open>read_key\<close>: the number the server reads from a text that is compared with the
    numeric key, and whether the whole text is that number;
  \<^item> \<open>refuses_truncated_key\<close>: whether an UPDATE or DELETE whose key text is not wholly
    a number is refused (as in strict mode) rather than run on the number read;
  \<^item> \<open>autoinc_follows_update\<close>: whether the counter moves past an Id that an UPDATE
    assigned;
  \<^item> \<open>spliced_insert\<close>, \<open>spliced_update\<close>: what the server makes of an INSERT or UPDATE
    into which an array or object was spliced: an error, or the values of the three
    expressions, respectively the assignment made to a row found.
\<close>

record env =
  DB_NAME :: string
  text_of_num :: "rat \<Rightarrow> string"
  num_of_text :: "string \<Rightarrow> rat option"
  read_key :: "string \<Rightarrow> rat \<times> bool"
  refuses_truncated_key :: bool
  autoinc_follows_update :: bool
  spliced_insert :: "sql_expr list \<Rightarrow> sql_expr list \<Rightarrow> sql_expr list \<Rightarrow> db_error + (sql_lit \<times> sql_lit \<times> sql_lit)"
  spliced_update :: "sql_expr list \<Rightarrow> sql_expr list \<Rightarrow> sql_expr list \<Rightarrow> db_error + (produto \<Rightarrow> db_error + produto)"

text \<open>
  What a query resolves to: the row array of a SELECT, or the header of the other
  statements with its \<open>insertId\<close> and \<open>affectedRows\<close>.
\<close>

record result =
  result_rows :: "produto list"
  insertId :: int
  affectedRows :: nat

definition rows_result :: "produto list \<Rightarrow> result" where
  "rows_result rs = \<lparr>result_rows = rs, insertId = 0, affectedRows = 0\<rparr>"

definition header :: "int \<Rightarrow> nat \<Rightarrow> result" where
  "header i n = \<lparr>result_rows = [], insertId = i, affectedRows = n\<rparr>"

subsection \<open>Column conversions (strict SQL mode)\<close>

definition varchar_255 :: "string \<Rightarrow> db_error + string" where
  "varchar_255 s = (if length s \<le> 255 then Inr s else Inl ER_DATA_TOO_LONG)"

fun to_varchar :: "env \<Rightarrow> sql_lit \<Rightarrow> db_error + string" where
  "to_varchar E SqlNull = Inl ER_BAD_NULL_ERROR"
| "to_varchar E (SqlBool b) = Inr (if b then ''1'' else ''0'')"
| "to_varchar E (SqlNum q) = varchar_255 (text_of_num E q)"
| "to_varchar E (SqlText s) = varchar_255 s"

text \<open>Rounding to the nearest integer, a half away from zero.\<close>

definition round_half_away :: "rat \<Rightarrow> int" where
  "round_half_away q = (if 0 \<le> q then \<lfloor>q + 1 / 2\<rfloor> else - \<lfloor>- q + 1 / 2\<rfloor>)"

text \<open>DECIMAL(10,2): two fractional digits, at most ten digits in all.\<close>

definition decimal_10_2 :: "rat \<Rightarrow> db_error + rat" where
  "decimal_10_2 q =
     (let c = round_half_away (q * 100)
      in if \<bar>c\<bar> \<le> 9999999999 then Inr (of_int c / 100) else Inl ER_WARN_DATA_OUT_OF_RANGE)"

fun to_decimal :: "env \<Rightarrow> sql_lit \<Rightarrow> db_error + rat" where
  "to_decimal E SqlNull = Inl ER_BAD_NULL_ERROR"
| "to_decimal E (SqlBool b) = Inr (if b then 1 else 0)"
| "to_decimal E (SqlNum q) = decimal_10_2 q"
| "to_decimal E (SqlText s) =
     (case num_of_text E s of
        None \<Rightarrow> Inl ER_TRUNCATED_WRONG_VALUE_FOR_FIELD
      | Some q \<Rightarrow> decimal_10_2 q)"

text \<open>The three values converted for their columns, in column order.\<close>

definition convert_fields :: "env \<Rightarrow> sql_lit \<Rightarrow> sql_lit \<Rightarrow> sql_lit \<Rightarrow> db_error + (string \<times> string \<times> rat)" where
  "convert_fields E n d p =
     (case to_varchar E n of
        Inl e \<Rightarrow> Inl e
      | Inr n' \<Rightarrow>
          (case to_varchar E d of
             Inl e \<Rightarrow> Inl e
           | Inr d' \<Rightarrow>
               (case to_decimal E p of
                  Inl e \<Rightarrow> Inl e
                | Inr p' \<Rightarrow> Inr (n', d', p'))))"

text \<open>A row is within the types of its columns.\<close>

definition fits_columns :: "produto \<Rightarrow> bool" where
  "fits_columns r =
     (- 2147483648 \<le> Id_col r \<and> Id_col r \<le> 2147483647 \<and>
      length (Nome r) \<le> 255 \<and> length (Descricao r) \<le> 255 \<and>
      decimal_10_2 (Preco r) = Inr (Preco r))"

subsection \<open>The value of what was spliced\<close>

text \<open>
  The value of what stands in place of a placeholder: a literal is its own value, a bare
  word names no column of the table, and for anything else the value is the one the
  server computed (\<open>v\<close>).
\<close>

definition slot_value :: "sql_expr list \<Rightarrow> sql_lit \<Rightarrow> db_error + sql_lit" where
  "slot_value es v =
     (case literal es of
        Some l \<Rightarrow> Inr l
      | None \<Rightarrow> if bare_word es then Inl ER_BAD_FIELD_ERROR else Inr v)"

definition slot_values :: "sql_expr list \<Rightarrow> sql_expr list \<Rightarrow> sql_expr list \<Rightarrow> sql_lit \<times> sql_lit \<times> sql_lit \<Rightarrow>
    db_error + (sql_lit \<times> sql_lit \<times> sql_lit)" where
  "slot_values n d p v =
     (case v of (a, b, c) \<Rightarrow>
        (case slot_value n a of
           Inl e \<Rightarrow> Inl e
         | Inr a' \<Rightarrow>
             (case slot_value d b of
                Inl e \<Rightarrow> Inl e
              | Inr b' \<Rightarrow>
                  (case slot_value p c of
                     Inl e \<Rightarrow> Inl e
                   | Inr c' \<Rightarrow> Inr (a', b', c')))))"

text \<open>
  The values of the three expressions of an INSERT or UPDATE. With three plain
  expressions nothing is left to the server's reading of a spliced list.
\<close>

definition bound_values :: "env \<Rightarrow> sql_expr list \<Rightarrow> sql_expr list \<Rightarrow> sql_expr list \<Rightarrow>
    db_error + (sql_lit \<times> sql_lit \<times> sql_lit)" where
  "bound_values E n d p =
     (if plain n \<and> plain d \<and> plain p then slot_values n d p (SqlNull, SqlNull, SqlNull)
      else
        (case spliced_insert E n d p of
           Inl e \<Rightarrow> Inl e
         | Inr v \<Rightarrow> slot_values n d p v))"

subsection \<open>Statements on the table\<close>

definition fresh_table :: table where
  "fresh_table = \<lparr>rows = [], auto_increment = 1\<rparr>"

text \<open>
  \<^verbatim>\<open>INSERT INTO produto (Nome, Descricao, Preco) VALUES (?, ?, ?)\<close>: one row with
  the next value of the counter as its Id, unless a value does not convert, the counter
  has left the range of INT, or a row already has that Id.
\<close>

definition insert_row :: "env \<Rightarrow> sql_lit \<Rightarrow> sql_lit \<Rightarrow> sql_lit \<Rightarrow> table \<Rightarrow> db_error + (result \<times> table)" where
  "insert_row E n d p t =
     (case convert_fields E n d p of
        Inl e \<Rightarrow> Inl e
      | Inr (n', d', p') \<Rightarrow>
          if auto_increment t > 2147483647 then Inl ER_AUTOINC_READ_FAILED
          else if list_ex (\<lambda>r. Id_col r = auto_increment t) (rows t) then Inl ER_DUP_ENTRY
          else Inr (header (auto_increment t) 1,
                    \<lparr>rows = rows t @ [\<lparr>Id_col = auto_increment t, Nome = n', Descricao = d', Preco = p'\<rparr>],
                     auto_increment = auto_increment t + 1\<rparr>))"

definition insert_statement :: "env \<Rightarrow> sql_expr list \<Rightarrow> sql_expr list \<Rightarrow> sql_expr list \<Rightarrow> table \<Rightarrow>
    db_error + (result \<times> table)" where
  "insert_statement E n d p t =
     (case bound_values E n d p of
        Inl e \<Rightarrow> Inl e
      | Inr (a, b, c) \<Rightarrow> insert_row E a b c t)"

text \<open>
  The key of a statement \<^verbatim>\<open>WHERE Id = ?\<close> is the text of the route parameter: the
  server compares the number it reads from the text with the Id of each row.
\<close>

definition key_matches :: "env \<Rightarrow> string \<Rightarrow> produto \<Rightarrow> bool" where
  "key_matches E i r = (of_int (Id_col r) = fst (read_key E i))"

definition key_refused :: "env \<Rightarrow> string \<Rightarrow> bool" where
  "key_refused E i = (refuses_truncated_key E \<and> \<not> snd (read_key E i))"

text \<open>
  \<^verbatim>\<open>UPDATE produto SET Nome = ?, Descricao = ?, Preco = ? WHERE Id = ?\<close> with three
  literal values. The values are converted when a row is assigned; \<open>affectedRows\<close> counts
  the rows found (the driver connects with the found-rows flag).
\<close>

definition update_rows :: "env \<Rightarrow> sql_lit \<Rightarrow> sql_lit \<Rightarrow> sql_lit \<Rightarrow> string \<Rightarrow> table \<Rightarrow> db_error + (result \<times> table)" where
  "update_rows E n d p i t =
     (if key_refused E i then Inl ER_TRUNCATED_WRONG_VALUE
      else if \<not> list_ex (key_matches E i) (rows t) then Inr (header 0 0, t)
      else
        (case convert_fields E n d p of
           Inl e \<Rightarrow> Inl e
         | Inr (n', d', p') \<Rightarrow>
             Inr (header 0 (length (filter (key_matches E i) (rows t))),
                  t\<lparr>rows := map (\<lambda>r. if key_matches E i r
                                       then r\<lparr>Nome := n', Descricao := d', Preco := p'\<rparr>
                                       else r) (rows t)\<rparr>)))"

text \<open>
  The same statement with an array or object spliced in: the rows found are assigned by
  \<open>f\<close>, which may set any column. A literal null among the three values is refused when
  a row is assigned, and so is a row outside the column types or an Id that another row
  has.
\<close>

fun assign_rows :: "(produto \<Rightarrow> bool) \<Rightarrow> (produto \<Rightarrow> db_error + produto) \<Rightarrow> produto list \<Rightarrow> db_error + produto list" where
  "assign_rows m f [] = Inr []"
| "assign_rows m f (r # rs) =
     (if m r
      then (case f r of
              Inl e \<Rightarrow> Inl e
            | Inr r' \<Rightarrow>
                if fits_columns r'
                then (case assign_rows m f rs of Inl e \<Rightarrow> Inl e | Inr rs' \<Rightarrow> Inr (r' # rs'))
                else Inl ER_WARN_DATA_OUT_OF_RANGE)
      else (case assign_rows m f rs of Inl e \<Rightarrow> Inl e | Inr rs' \<Rightarrow> Inr (r # rs')))"

definition counter_after :: "env \<Rightarrow> int \<Rightarrow> produto list \<Rightarrow> int" where
  "counter_after E c rs =
     (if autoinc_follows_update E then fold (\<lambda>r m. max m (Id_col r + 1)) rs c else c)"

definition update_spliced :: "env \<Rightarrow> bool \<Rightarrow> (produto \<Rightarrow> db_error + produto) \<Rightarrow> string \<Rightarrow> table \<Rightarrow>
    db_error + (result \<times> table)" where
  "update_spliced E has_null f i t =
     (if key_refused E i then Inl ER_TRUNCATED_WRONG_VALUE
      else if \<not> list_ex (key_matches E i) (rows t) then Inr (header 0 0, t)
      else if has_null then Inl ER_BAD_NULL_ERROR
      else
        (case assign_rows (key_matches E i) f (rows t) of
           Inl e \<Rightarrow> Inl e
         | Inr rs' \<Rightarrow>
             if distinct (map Id_col rs')
             then Inr (header 0 (length (filter (key_matches E i) (rows t))),
                       \<lparr>rows = rs', auto_increment = counter_after E (auto_increment t) rs'\<rparr>)
             else Inl ER_DUP_ENTRY))"

definition update_statement :: "env \<Rightarrow> sql_expr list \<Rightarrow> sql_expr list \<Rightarrow> sql_expr list \<Rightarrow> string \<Rightarrow> table \<Rightarrow>
    db_error + (result \<times> table)" where
  "update_statement E n d p i t =
     (if plain n \<and> plain d \<and> plain p
      then (case slot_values n d p (SqlNull, SqlNull, SqlNull) of
              Inl e \<Rightarrow> Inl e
            | Inr (a, b, c) \<Rightarrow> update_rows E a b c i t)
      else
        (case spliced_update E n d p of
           Inl e \<Rightarrow> Inl e
         | Inr f \<Rightarrow>
             if bare_word n \<or> bare_word d \<or> bare_word p then Inl ER_BAD_FIELD_ERROR
             else update_spliced E
                    (literal n = Some SqlNull \<or> literal d = Some SqlNull \<or> literal p = Some SqlNull)
                    f i t))"

text \<open>\<^verbatim>\<open>DELETE FROM produto WHERE Id = ?\<close>\<close>

definition delete_rows :: "env \<Rightarrow> string \<Rightarrow> table \<Rightarrow> db_error + (result \<times> table)" where
  "delete_rows E i t =
     (if key_refused E i then Inl ER_TRUNCATED_WRONG_VALUE
      else Inr (header 0 (length (filter (key_matches E i) (rows t))),
                t\<lparr>rows := filter (\<lambda>r. \<not> key_matches E i r) (rows t)\<rparr>))"

text \<open>
  \<^verbatim>\<open>SELECT * FROM produto WHERE Id = ?\<close>: in a SELECT a key text that is not wholly
  a number only raises a warning.
\<close>

definition select_rows :: "env \<Rightarrow> string \<Rightarrow> table \<Rightarrow> produto list" where
  "select_rows E i t = filter (key_matches E i) (rows t)"

subsection \<open>The statements the server receives\<close>

definition nl :: string where
  "nl = [CHR 0x0A]"

text \<open>The script of \<open>/init-db\<close> in \<open>server.js\<close>, for schema \<open>name\<close>.\<close>

definition createDB :: "string \<Rightarrow> string" where
  "createDB name =
     nl @ ''      CREATE DATABASE IF NOT EXISTS `'' @ name @ ''`;'' @
     nl @ ''      USE `'' @ name @ ''`;'' @
     nl @ ''      CREATE TABLE IF NOT EXISTS produto ('' @
     nl @ ''        Id INT AUTO_INCREMENT PRIMARY KEY,'' @
     nl @ ''        Nome VARCHAR(255) NOT NULL,'' @
     nl @ ''        Descricao VARCHAR(255) NOT NULL,'' @
     nl @ ''        Preco DECIMAL(10,2) NOT NULL'' @
     nl @ ''      );'' @
     nl @ ''    ''"

text \<open>The script of \<open>/init-db\<close> in the second server file.\<close>

definition part0_createDB :: "string \<Rightarrow> string" where
  "part0_createDB name =
     ''CREATE DATABASE IF NOT EXISTS `'' @ name @ ''`; USE `'' @ name @ ''`;'' @
     nl @ ''      CREATE TABLE IF NOT EXISTS produto ('' @
     nl @ ''        Id INT AUTO_INCREMENT PRIMARY KEY,'' @
     nl @ ''        Nome VARCHAR(255) NOT NULL,'' @
     nl @ ''        Descricao VARCHAR(255) NOT NULL,'' @
     nl @ ''        Preco DECIMAL(10,2) NOT NULL'' @
     nl @ ''      );''"

text \<open>The statement that selects the schema, as the second server file writes it.\<close>

definition use_db :: "string \<Rightarrow> string" where
  "use_db name = ''USE `'' @ name @ ''`''"

datatype statement =
    CREATE_SCRIPT
  | USE
  | SELECT_ALL
  | SELECT_BY_ID
  | INSERT
  | UPDATE
  | DELETE

text \<open>
  The server's reading of the texts this program sends, on a server whose schema is
  \<open>name\<close>; column names are not case sensitive. Any other text is a syntax error.
\<close>

definition parse_statement :: "string \<Rightarrow> string \<Rightarrow> statement option" where
  "parse_statement name sql =
     (if sql = createDB name \<or> sql = part0_createDB name then Some CREATE_SCRIPT
      else if sql = use_db name then Some USE
      else if sql = ''SELECT * FROM produto'' then Some SELECT_ALL
      else if sql = ''SELECT * FROM produto WHERE Id = ?'' \<or>
              sql = ''SELECT * FROM produto WHERE id = ?'' then Some SELECT_BY_ID
      else if sql = ''INSERT INTO produto (Nome, Descricao, Preco) VALUES (?, ?, ?)'' then Some INSERT
      else if sql = ''UPDATE produto SET Nome = ?, Descricao = ?, Preco = ? WHERE Id = ?'' then Some UPDATE
      else if sql = ''DELETE FROM produto WHERE Id = ?'' then Some DELETE
      else None)"

text \<open>The key text, when a single text literal stands in place of the key placeholder.\<close>

fun key_text :: "sql_expr list \<Rightarrow> string option" where
  "key_text [E_lit (SqlText i)] = Some i"
| "key_text es = None"

text \<open>
  A statement on the table, with what stands in place of each placeholder. A failed
  statement changes nothing.
\<close>

fun on_table :: "env \<Rightarrow> statement \<Rightarrow> sql_expr list list \<Rightarrow> table \<Rightarrow> db_error + (result \<times> table)" where
  "on_table E SELECT_ALL vs t = Inr (rows_result (rows t), t)"
| "on_table E SELECT_BY_ID vs t =
     (case vs of
        [k] \<Rightarrow> (case key_text k of
                  Some i \<Rightarrow> Inr (rows_result (select_rows E i t), t)
                | None \<Rightarrow> Inl ER_PARSE_ERROR)
      | _ \<Rightarrow> Inl ER_PARSE_ERROR)"
| "on_table E INSERT vs t =
     (case vs of
        [n, d, p] \<Rightarrow> insert_statement E n d p t
      | _ \<Rightarrow> Inl ER_PARSE_ERROR)"
| "on_table E UPDATE vs t =
     (case vs of
        [n, d, p, k] \<Rightarrow> (case key_text k of
                           Some i \<Rightarrow> update_statement E n d p i t
                         | None \<Rightarrow> Inl ER_PARSE_ERROR)
      | _ \<Rightarrow> Inl ER_PARSE_ERROR)"
| "on_table E DELETE vs t =
     (case vs of
        [k] \<Rightarrow> (case key_text k of
                  Some i \<Rightarrow> delete_rows E i t
                | None \<Rightarrow> Inl ER_PARSE_ERROR)
      | _ \<Rightarrow> Inl ER_PARSE_ERROR)"
| "on_table E st vs t = Inr (header 0 0, t)"

text \<open>
  A statement run on a connection of the server. The script of \<open>/init-db\<close> creates
  what is missing and keeps what exists; \<open>USE\<close> needs the schema; the statements on
  \<open>produto\<close> need the schema and the table.
\<close>

fun exec :: "env \<Rightarrow> statement \<Rightarrow> sql_expr list list \<Rightarrow> server \<Rightarrow> db_error + (result \<times> server)" where
  "exec E CREATE_SCRIPT vs NoDatabase = Inr (header 0 0, Table fresh_table)"
| "exec E CREATE_SCRIPT vs NoTable = Inr (header 0 0, Table fresh_table)"
| "exec E CREATE_SCRIPT vs (Table t) = Inr (header 0 0, Table t)"
| "exec E USE vs NoDatabase = Inl ER_BAD_DB_ERROR"
| "exec E USE vs s = Inr (header 0 0, s)"
| "exec E st vs NoDatabase = Inl ER_NO_DB_ERROR"
| "exec E st vs NoTable = Inl ER_NO_SUCH_TABLE"
| "exec E st vs (Table t) =
     (case on_table E st vs t of Inl e \<Rightarrow> Inl e | Inr (res, t') \<Rightarrow> Inr (res, Table t'))"

text \<open>
  A query as the program hands it to the pool: the text and the values. The driver
  splices the values into the text and the server runs what it reads.
\<close>

type_synonym query = "string \<times> jsval list"

definition send :: "env \<Rightarrow> query \<Rightarrow> server \<Rightarrow> db_error + (result \<times> server)" where
  "send E q s =
     (case parse_statement (DB_NAME E) (fst q) of
        None \<Rightarrow> Inl ER_PARSE_ERROR
      | Some st \<Rightarrow> exec E st (map escape (snd q)) s)"

section \<open>Responses\<close>

text \<open>
  The fixed texts of the responses, and \<open>err.message\<close> of a failed query.
\<close>

datatype message =
    Banco_de_dados_e_tabela_criados_com_sucesso
  | Campos_obrigatorios_Nome_Descricao_Preco
  | Produto_nao_encontrado
  | Produto_atualizado_com_sucesso
  | Produto_deletado_com_sucesso
  | Err_message db_error

datatype payload =
    Send message
  | Json_error message
  | Json_message message
  | Json_id int
  | Json_produto produto
  | Json_produtos "produto list"
  | Uncaught_TypeError

record response =
  status :: nat
  payload :: payload

text \<open>
  A handler returns its response, the server state it leaves, and the queries it handed
  to the pool.
\<close>

type_synonym outcome = "response \<times> server \<times> query list"

definition internal_error :: "db_error \<Rightarrow> response" where
  "internal_error e = \<lparr>status = 500, payload = Json_error (Err_message e)\<rparr>"

text \<open>
  Destructuring \<open>req.body\<close> when it is \<open>undefined\<close> throws before the \<open>try\<close> block is
  entered; the framework answers the rejected handler with its error response.
\<close>

definition uncaught :: response where
  "uncaught = \<lparr>status = 500, payload = Uncaught_TypeError\<rparr>"

section \<open>The handlers of server.js\<close>

text \<open>
  The pool of \<open>server.js\<close> is created with \<^verbatim>\<open>database: process.env.DB_NAME\<close>:
  a connection is only established when that schema exists, and then has it selected.
\<close>

definition pool_query :: "env \<Rightarrow> query \<Rightarrow> server \<Rightarrow> db_error + (result \<times> server)" where
  "pool_query E q s = (case s of NoDatabase \<Rightarrow> Inl ER_BAD_DB_ERROR | _ \<Rightarrow> send E q s)"

definition post_init_db :: "env \<Rightarrow> server \<Rightarrow> outcome" where
  "post_init_db E s =
     (let q = (createDB (DB_NAME E), []) in
      case pool_query E q s of
        Inr (res, s') \<Rightarrow>
          (\<lparr>status = 200, payload = Send Banco_de_dados_e_tabela_criados_com_sucesso\<rparr>, s', [q])
      | Inl e \<Rightarrow> (internal_error e, s, [q]))"

definition get_produtos :: "env \<Rightarrow> server \<Rightarrow> outcome" where
  "get_produtos E s =
     (let q = (''SELECT * FROM produto'', []) in
      case pool_query E q s of
        Inr (res, s') \<Rightarrow> (\<lparr>status = 200, payload = Json_produtos (result_rows res)\<rparr>, s', [q])
      | Inl e \<Rightarrow> (internal_error e, s, [q]))"

definition get_produtos_id :: "env \<Rightarrow> string \<Rightarrow> server \<Rightarrow> outcome" where
  "get_produtos_id E i s =
     (let q = (''SELECT * FROM produto WHERE Id = ?'', [JStr i]) in
      case pool_query E q s of
        Inr (res, s') \<Rightarrow>
          (case result_rows res of
             [] \<Rightarrow> (\<lparr>status = 404, payload = Json_error Produto_nao_encontrado\<rparr>, s', [q])
           | r # rs \<Rightarrow> (\<lparr>status = 200, payload = Json_produto r\<rparr>, s', [q]))
      | Inl e \<Rightarrow> (internal_error e, s, [q]))"

definition post_produtos :: "env \<Rightarrow> req_body \<Rightarrow> server \<Rightarrow> outcome" where
  "post_produtos E rb s =
     (case rb of
        No_body \<Rightarrow> (uncaught, s, [])
      | Body b \<Rightarrow>
          if js_not (b ''Nome'') \<or> js_not (b ''Descricao'') \<or> js_eq_null (b ''Preco'')
          then (\<lparr>status = 400, payload = Json_error Campos_obrigatorios_Nome_Descricao_Preco\<rparr>, s, [])
          else
            (let q = (''INSERT INTO produto (Nome, Descricao, Preco) VALUES (?, ?, ?)'',
                      [b ''Nome'', b ''Descricao'', b ''Preco'']) in
             case pool_query E q s of
               Inr (res, s') \<Rightarrow> (\<lparr>status = 201, payload = Json_id (insertId res)\<rparr>, s', [q])
             | Inl e \<Rightarrow> (internal_error e, s, [q])))"

definition put_produtos_id :: "env \<Rightarrow> string \<Rightarrow> req_body \<Rightarrow> server \<Rightarrow> outcome" where
  "put_produtos_id E i rb s =
     (case rb of
        No_body \<Rightarrow> (uncaught, s, [])
      | Body b \<Rightarrow>
          if js_not (b ''Nome'') \<or> js_not (b ''Descricao'') \<or> js_eq_null (b ''Preco'')
          then (\<lparr>status = 400, payload = Json_error Campos_obrigatorios_Nome_Descricao_Preco\<rparr>, s, [])
          else
            (let q = (''UPDATE produto SET Nome = ?, Descricao = ?, Preco = ? WHERE Id = ?'',
                      [b ''Nome'', b ''Descricao'', b ''Preco'', JStr i]) in
             case pool_query E q s of
               Inr (res, s') \<Rightarrow>
                 (if affectedRows res = 0
                  then (\<lparr>status = 404, payload = Json_error Produto_nao_encontrado\<rparr>, s', [q])
                  else (\<lparr>status = 200, payload = Json_message Produto_atualizado_com_sucesso\<rparr>, s', [q]))
             | Inl e \<Rightarrow> (internal_error e, s, [q])))"

definition delete_produtos_id :: "env \<Rightarrow> string \<Rightarrow> server \<Rightarrow> outcome" where
  "delete_produtos_id E i s =
     (let q = (''DELETE FROM produto WHERE Id = ?'', [JStr i]) in
      case pool_query E q s of
        Inr (res, s') \<Rightarrow>
          (if affectedRows res = 0
           then (\<lparr>status = 404, payload = Json_error Produto_nao_encontrado\<rparr>, s', [q])
           else (\<lparr>status = 200, payload = Json_message Produto_deletado_com_sucesso\<rparr>, s', [q]))
      | Inl e \<Rightarrow> (internal_error e, s, [q]))"

section \<open>The handlers of the second server file\<close>

text \<open>
  The second file creates its pool without a schema, has every handler select the schema
  with a \<open>USE\<close> statement first, and validates no field.
\<close>

definition part0_pool_query :: "env \<Rightarrow> query \<Rightarrow> server \<Rightarrow> db_error + (result \<times> server)" where
  "part0_pool_query E q s = send E q s"



definition part0_get_produtos_id :: "env \<Rightarrow> string \<Rightarrow> server \<Rightarrow> outcome" where
  "part0_get_produtos_id E i s =
     (let u = (use_db (DB_NAME E), []);
          q = (''SELECT * FROM produto WHERE id = ?'', [JStr i]) in
      case part0_pool_query E u s of
        Inl e \<Rightarrow> (internal_error e, s, [u])
      | Inr (ures, s1) \<Rightarrow>
          (case part0_pool_query E q s1 of
             Inr (res, s') \<Rightarrow>
               (case result_rows res of
                  [] \<Rightarrow> (\<lparr>status = 404, payload = Json_error Produto_nao_encontrado\<rparr>, s', [u, q])
                | r # rs \<Rightarrow> (\<lparr>status = 200, payload = Json_produto r\<rparr>, s', [u, q]))
           | Inl e \<Rightarrow> (internal_error e, s1, [u, q])))"




section \<open>Requests and runs\<close>

datatype request =
    POST_init_db
  | GET_produtos
  | GET_produtos_id string
  | POST_produtos req_body
  | PUT_produtos_id string req_body
  | DELETE_produtos_id string

fun handle :: "env \<Rightarrow> request \<Rightarrow> server \<Rightarrow> outcome" where
  "handle E POST_init_db s = post_init_db E s"
| "handle E GET_produtos s = get_produtos E s"
| "handle E (GET_produtos_id i) s = get_produtos_id E i s"
| "handle E (POST_produtos rb) s = post_produtos E rb s"
| "handle E (PUT_produtos_id i rb) s = put_produtos_id E i rb s"
| "handle E (DELETE_produtos_id i) s = delete_produtos_id E i s"


text \<open>
  Requests served one after the other by handlers \<open>h\<close>: the responses in order and the
  final server state.
\<close>

fun run :: "(request \<Rightarrow> server \<Rightarrow> outcome) \<Rightarrow> request list \<Rightarrow> server \<Rightarrow> response list \<times> server" where
  "run h [] s = ([], s)"
| "run h (r # rs) s =
     (case h r s of (resp, s', qs) \<Rightarrow>
        (case run h rs s' of (resps, s'') \<Rightarrow> (resp # resps, s'')))"

section \<open>The texts of each route\<close>







text \<open>
  A value the driver writes as a single literal: absent or null, a boolean, a finite
  number or a string.
\<close>

fun scalar :: "jsval \<Rightarrow> bool" where
  "scalar (JArr xs) = False"
| "scalar (JObj kvs) = False"
| "scalar JInfinity = False"
| "scalar JNegInfinity = False"
| "scalar v = True"

section \<open>Auxiliary notions for the properties\<close>

text \<open>A body with the three fields given and every other key absent.\<close>

definition fields :: "jsval \<Rightarrow> jsval \<Rightarrow> jsval \<Rightarrow> body" where
  "fields n d p k =
     (if k = ''Nome'' then n
      else if k = ''Descricao'' then d
      else if k = ''Preco'' then p
      else JUndefined)"

text \<open>
  A configuration for the concrete examples. Its reading of a key text takes the leading
  decimal digits, which is the server's reading of the texts used in the examples; it
  refuses every statement with a spliced array or object.
\<close>

fun position :: "char \<Rightarrow> string \<Rightarrow> nat \<Rightarrow> nat option" where
  "position c [] k = None"
| "position c (x # xs) k = (if c = x then Some k else position c xs (Suc k))"

definition digit_of :: "char \<Rightarrow> nat option" where
  "digit_of c = position c ''0123456789'' 0"

fun leading_digits :: "string \<Rightarrow> nat \<Rightarrow> nat \<times> string" where
  "leading_digits [] acc = (acc, [])"
| "leading_digits (c # cs) acc =
     (case digit_of c of
        Some d \<Rightarrow> leading_digits cs (10 * acc + d)
      | None \<Rightarrow> (acc, c # cs))"

definition demo_read_key :: "string \<Rightarrow> rat \<times> bool" where
  "demo_read_key i = (case leading_digits i 0 of (n, rest) \<Rightarrow> (of_nat n, i \<noteq> [] \<and> rest = []))"

definition demo_env :: env where
  "demo_env =
     \<lparr>DB_NAME = ''loja'', text_of_num = (\<lambda>q. ''0''), num_of_text = (\<lambda>s. None),
      read_key = demo_read_key, refuses_truncated_key = True, autoinc_follows_update = True,
      spliced_insert = (\<lambda>n d p. Inl ER_WRONG_VALUE_COUNT_ON_ROW),
      spliced_update = (\<lambda>n d p. Inl ER_PARSE_ERROR)\<rparr>"

text \<open>The ids returned by the Creates that succeeded, in order.\<close>

fun created_ids :: "response list \<Rightarrow> int list" where
  "created_ids [] = []"
| "created_ids (r # rs) =
     (case payload r of
        Json_id i \<Rightarrow> (if status r = 201 then i # created_ids rs else created_ids rs)
      | _ \<Rightarrow> created_ids rs)"

text \<open>The number of responses with status 201.\<close>

definition count_created :: "response list \<Rightarrow> nat" where
  "count_created resps = length (filter (\<lambda>r. status r = 201) resps)"

fun is_delete :: "request \<Rightarrow> bool" where
  "is_delete (DELETE_produtos_id i) = True"
| "is_delete r = False"

text \<open>
  The value the next row gets as its Id, and the invariant of the key column: the counter
  is positive and the stored ids are pairwise different.
\<close>

fun next_id :: "server \<Rightarrow> int" where
  "next_id (Table t) = auto_increment t"
| "next_id s = 1"

fun stored_rows :: "server \<Rightarrow> produto list" where
  "stored_rows (Table t) = rows t"
| "stored_rows s = []"

definition key_ok :: "server \<Rightarrow> bool" where
  "key_ok s = (0 < next_id s \<and> distinct (map Id_col (stored_rows s)))"

section \<open>Basic facts\<close>

lemma fields_simps [simp]:
  "fields n d p ''Nome'' = n" "fields n d p ''Descricao'' = d" "fields n d p ''Preco'' = p"
  by (simp_all add: fields_def)

lemma floor_rat_numeral [simp]:
  "\<lfloor>(numeral a :: rat) / numeral b\<rfloor> = numeral a div numeral b"
  using floor_divide_of_int_eq [of "numeral a" "numeral b", where ?'a = rat] by simp

lemma floor_rat_one_numeral [simp]:
  "\<lfloor>(1 :: rat) / numeral b\<rfloor> = 1 div numeral b"
  using floor_divide_of_int_eq [of 1 "numeral b", where ?'a = rat] by simp

lemma round_half_away_0 [simp]: "round_half_away 0 = 0"
  by (simp add: round_half_away_def)

lemma decimal_10_2_0 [simp]: "decimal_10_2 0 = Inr 0"
  by (simp add: decimal_10_2_def)

lemma demo_env_simps [simp]:
  "DB_NAME demo_env = ''loja''" "text_of_num demo_env q = ''0''" "num_of_text demo_env s = None"
  "read_key demo_env = demo_read_key" "refuses_truncated_key demo_env"
  "spliced_insert demo_env n d p = Inl ER_WRONG_VALUE_COUNT_ON_ROW"
  "spliced_update demo_env n d p = Inl ER_PARSE_ERROR"
  by (simp_all add: demo_env_def)

subsection \<open>The server's reading of the program's texts\<close>

lemma parse_createDB [simp]: "parse_statement name (createDB name) = Some CREATE_SCRIPT"
  by (simp add: parse_statement_def)

lemma parse_part0_createDB [simp]: "parse_statement name (part0_createDB name) = Some CREATE_SCRIPT"
  by (simp add: parse_statement_def)

lemma parse_use [simp]: "parse_statement name (use_db name) = Some USE"
  by (simp add: parse_statement_def createDB_def part0_createDB_def use_db_def nl_def)

lemma parse_select_all [simp]: "parse_statement name ''SELECT * FROM produto'' = Some SELECT_ALL"
  by (simp add: parse_statement_def createDB_def part0_createDB_def use_db_def nl_def)

lemma parse_select_by_id [simp]:
  "parse_statement name ''SELECT * FROM produto WHERE Id = ?'' = Some SELECT_BY_ID"
  "parse_statement name ''SELECT * FROM produto WHERE id = ?'' = Some SELECT_BY_ID"
  by (simp_all add: parse_statement_def createDB_def part0_createDB_def use_db_def nl_def)

lemma parse_insert [simp]:
  "parse_statement name ''INSERT INTO produto (Nome, Descricao, Preco) VALUES (?, ?, ?)'' = Some INSERT"
  by (simp add: parse_statement_def createDB_def part0_createDB_def use_db_def nl_def)

lemma parse_update [simp]:
  "parse_statement name ''UPDATE produto SET Nome = ?, Descricao = ?, Preco = ? WHERE Id = ?'' = Some UPDATE"
  by (simp add: parse_statement_def createDB_def part0_createDB_def use_db_def nl_def)

lemma parse_delete [simp]:
  "parse_statement name ''DELETE FROM produto WHERE Id = ?'' = Some DELETE"
  by (simp add: parse_statement_def createDB_def part0_createDB_def use_db_def nl_def)

subsection \<open>Queries of the handlers\<close>

lemma send_simps [simp]:
  "send E (createDB (DB_NAME E), vs) s = exec E CREATE_SCRIPT (map escape vs) s"
  "send E (part0_createDB (DB_NAME E), vs) s = exec E CREATE_SCRIPT (map escape vs) s"
  "send E (use_db (DB_NAME E), vs) s = exec E USE (map escape vs) s"
  "send E (''SELECT * FROM produto'', vs) s = exec E SELECT_ALL (map escape vs) s"
  "send E (''SELECT * FROM produto WHERE Id = ?'', vs) s = exec E SELECT_BY_ID (map escape vs) s"
  "send E (''SELECT * FROM produto WHERE id = ?'', vs) s = exec E SELECT_BY_ID (map escape vs) s"
  "send E (''INSERT INTO produto (Nome, Descricao, Preco) VALUES (?, ?, ?)'', vs) s =
     exec E INSERT (map escape vs) s"
  "send E (''UPDATE produto SET Nome = ?, Descricao = ?, Preco = ? WHERE Id = ?'', vs) s =
     exec E UPDATE (map escape vs) s"
  "send E (''DELETE FROM produto WHERE Id = ?'', vs) s = exec E DELETE (map escape vs) s"
  by (simp_all add: send_def)

lemma send_demo_simps [simp]:
  "send demo_env (createDB ''loja'', vs) s = exec demo_env CREATE_SCRIPT (map escape vs) s"
  "send demo_env (part0_createDB ''loja'', vs) s = exec demo_env CREATE_SCRIPT (map escape vs) s"
  "send demo_env (use_db ''loja'', vs) s = exec demo_env USE (map escape vs) s"
  using send_simps(1-3) [of demo_env vs s] by simp_all

lemma pool_query_table [simp]: "pool_query E q (Table t) = send E q (Table t)"
  by (simp add: pool_query_def)

lemma pool_query_no_table [simp]: "pool_query E q NoTable = send E q NoTable"
  by (simp add: pool_query_def)

lemma pool_query_no_database [simp]: "pool_query E q NoDatabase = Inl ER_BAD_DB_ERROR"
  by (simp add: pool_query_def)

lemma pool_query_send:
  "pool_query E q s = Inr (res, s') \<Longrightarrow> send E q s = Inr (res, s')"
  by (cases s) (simp_all add: pool_query_def)


lemma exec_use_table [simp]: "exec E USE vs (Table t) = Inr (header 0 0, Table t)"
  by simp


lemma exec_table:
  "exec E st vs (Table t) = Inr (res, s') \<Longrightarrow> \<exists>t'. s' = Table t'"
  by (cases st) (auto split: sum.splits prod.splits)

lemma exec_on_table:
  assumes "exec E st vs s = Inr (res, s')" and "st \<noteq> CREATE_SCRIPT" and "st \<noteq> USE"
  shows "\<exists>t t'. s = Table t \<and> s' = Table t' \<and> on_table E st vs t = Inr (res, t')"
  using assms by (cases s; cases st) (auto split: sum.splits)

subsection \<open>Values bound to the three columns\<close>

lemma literal_escape_null:
  "js_eq_null v \<Longrightarrow> literal (escape v) = Some SqlNull"
  by (cases v) simp_all

lemma slot_value_null:
  "literal es = Some SqlNull \<Longrightarrow> slot_value es v = Inr SqlNull"
  by (simp add: slot_value_def)

lemma slot_values_null:
  assumes "literal n = Some SqlNull \<or> literal d = Some SqlNull \<or> literal p = Some SqlNull"
    and "slot_values n d p v = Inr (a, b, c)"
  shows "a = SqlNull \<or> b = SqlNull \<or> c = SqlNull"
  using assms
  by (cases v) (auto simp: slot_values_def slot_value_def split: sum.splits option.splits if_splits)

lemma convert_fields_null:
  "a = SqlNull \<or> b = SqlNull \<or> c = SqlNull \<Longrightarrow> \<exists>e. convert_fields E a b c = Inl e"
  by (cases a; cases b; cases c) (auto simp: convert_fields_def split: sum.splits)

lemma bound_values_null:
  assumes "literal n = Some SqlNull \<or> literal d = Some SqlNull \<or> literal p = Some SqlNull"
    and "bound_values E n d p = Inr (a, b, c)"
  shows "a = SqlNull \<or> b = SqlNull \<or> c = SqlNull"
  using assms slot_values_null [OF assms(1)]
  by (auto simp: bound_values_def split: if_splits sum.splits)

lemma insert_statement_null:
  assumes "literal n = Some SqlNull \<or> literal d = Some SqlNull \<or> literal p = Some SqlNull"
  shows "\<exists>e. insert_statement E n d p t = Inl e"
proof (cases "bound_values E n d p")
  case (Inl e)
  then show ?thesis by (simp add: insert_statement_def)
next
  case (Inr v)
  obtain a b c where v: "v = (a, b, c)" by (cases v)
  from bound_values_null [OF assms Inr [unfolded v]] convert_fields_null obtain e where
    "convert_fields E a b c = Inl e" by blast
  then show ?thesis using Inr v by (simp add: insert_statement_def insert_row_def)
qed

lemma update_rows_null:
  assumes "a = SqlNull \<or> b = SqlNull \<or> c = SqlNull" and "update_rows E a b c i t = Inr (res, t')"
  shows "t' = t"
  using assms convert_fields_null [OF assms(1), of E]
  by (auto simp: update_rows_def split: if_splits)

lemma update_statement_null:
  assumes "literal n = Some SqlNull \<or> literal d = Some SqlNull \<or> literal p = Some SqlNull"
    and "update_statement E n d p i t = Inr (res, t')"
  shows "t' = t"
proof (cases "plain n \<and> plain d \<and> plain p")
  case True
  then obtain a b c where sv: "slot_values n d p (SqlNull, SqlNull, SqlNull) = Inr (a, b, c)"
    and u: "update_rows E a b c i t = Inr (res, t')"
    using assms(2) by (auto simp: update_statement_def split: sum.splits)
  from slot_values_null [OF assms(1) sv] update_rows_null u show ?thesis by blast
next
  case False
  then show ?thesis using assms
    by (auto simp: update_statement_def update_spliced_def split: sum.splits if_splits)
qed

lemma exec_insert_null:
  assumes "js_eq_null n \<or> js_eq_null d \<or> js_eq_null p"
  shows "\<exists>e. exec E INSERT (map escape [n, d, p]) s = Inl e"
proof -
  have l: "literal (escape n) = Some SqlNull \<or> literal (escape d) = Some SqlNull \<or>
      literal (escape p) = Some SqlNull"
    using assms literal_escape_null by blast
  show ?thesis
  proof (cases s)
    case (Table t)
    from insert_statement_null [OF l, of E t] show ?thesis using Table by auto
  qed simp_all
qed

lemma exec_update_null:
  assumes "js_eq_null n \<or> js_eq_null d \<or> js_eq_null p"
    and "exec E UPDATE (map escape [n, d, p, JStr i]) s = Inr (res, s')"
  shows "s' = s"
proof -
  have l: "literal (escape n) = Some SqlNull \<or> literal (escape d) = Some SqlNull \<or>
      literal (escape p) = Some SqlNull"
    using assms(1) literal_escape_null by blast
  show ?thesis
  proof (cases s)
    case (Table t)
    then show ?thesis using assms(2) update_statement_null [OF l, of E i t]
      by (auto split: sum.splits)
  qed (use assms(2) in simp_all)
qed

section \<open>How a statement changes the table\<close>

lemma insert_row_effect:
  assumes "insert_row E a b c t = Inr (res, t')"
  shows "\<exists>n' d' p'. convert_fields E a b c = Inr (n', d', p') \<and>
           insertId res = auto_increment t \<and> affectedRows res = 1 \<and>
           (\<forall>r\<in>set (rows t). Id_col r \<noteq> auto_increment t) \<and>
           t' = \<lparr>rows = rows t @ [\<lparr>Id_col = auto_increment t, Nome = n', Descricao = d', Preco = p'\<rparr>],
                 auto_increment = auto_increment t + 1\<rparr>"
  using assms
  by (auto simp: insert_row_def header_def list_ex_iff split: sum.splits if_splits)

lemma insert_statement_effect:
  assumes "insert_statement E n d p t = Inr (res, t')"
  shows "\<exists>a b c n' d' p'. bound_values E n d p = Inr (a, b, c) \<and>
           convert_fields E a b c = Inr (n', d', p') \<and>
           insertId res = auto_increment t \<and>
           (\<forall>r\<in>set (rows t). Id_col r \<noteq> auto_increment t) \<and>
           t' = \<lparr>rows = rows t @ [\<lparr>Id_col = auto_increment t, Nome = n', Descricao = d', Preco = p'\<rparr>],
                 auto_increment = auto_increment t + 1\<rparr>"
proof (cases "bound_values E n d p")
  case (Inl e)
  then show ?thesis using assms by (simp add: insert_statement_def)
next
  case (Inr v)
  obtain a b c where v: "v = (a, b, c)" by (cases v)
  have "insert_row E a b c t = Inr (res, t')"
    using assms Inr v by (simp add: insert_statement_def)
  from insert_row_effect [OF this] show ?thesis using Inr v by blast
qed

lemma assign_rows_length:
  "assign_rows m f rs = Inr rs' \<Longrightarrow> length rs' = length rs"
  by (induction rs arbitrary: rs') (auto split: if_splits sum.splits)

lemma counter_after_ge: "c \<le> counter_after E c rs"
proof -
  have "c \<le> fold (\<lambda>r m. max m (Id_col r + 1)) rs c" for c
    by (induction rs arbitrary: c) (auto intro: order_trans [OF max.cobounded1])
  then show ?thesis by (simp add: counter_after_def)
qed

lemma update_rows_ids:
  "update_rows E a b c i t = Inr (res, t') \<Longrightarrow>
   map Id_col (rows t') = map Id_col (rows t) \<and> auto_increment t' = auto_increment t"
proof -
  have ids: "Id_col \<circ> (\<lambda>r. if m r then r\<lparr>Nome := x, Descricao := y, Preco := z\<rparr> else r) = Id_col"
    for m :: "produto \<Rightarrow> bool" and x y z
    by (rule ext) simp
  show "update_rows E a b c i t = Inr (res, t') \<Longrightarrow>
    map Id_col (rows t') = map Id_col (rows t) \<and> auto_increment t' = auto_increment t"
    by (auto simp: update_rows_def ids split: if_splits sum.splits)
qed

lemma update_statement_effect:
  assumes "update_statement E n d p i t = Inr (res, t')"
  shows "length (rows t') = length (rows t) \<and> auto_increment t \<le> auto_increment t' \<and>
         (distinct (map Id_col (rows t)) \<longrightarrow> distinct (map Id_col (rows t')))"
proof (cases "plain n \<and> plain d \<and> plain p")
  case True
  then obtain a b c where "update_rows E a b c i t = Inr (res, t')"
    using assms by (auto simp: update_statement_def split: sum.splits)
  from update_rows_ids [OF this] show ?thesis by (metis length_map order_refl)
next
  case False
  then obtain f h where u: "update_spliced E h f i t = Inr (res, t')"
    using assms by (auto simp: update_statement_def split: sum.splits if_splits)
  then show ?thesis using counter_after_ge [of "auto_increment t" E]
    by (auto simp: update_spliced_def assign_rows_length split: if_splits sum.splits)
qed

lemma delete_rows_effect:
  assumes "delete_rows E i t = Inr (res, t')"
  shows "\<not> key_refused E i \<and> affectedRows res = length (filter (key_matches E i) (rows t)) \<and>
         t' = t\<lparr>rows := filter (\<lambda>r. \<not> key_matches E i r) (rows t)\<rparr>"
  using assms by (auto simp: delete_rows_def header_def split: if_splits)

lemma on_table_key_ok:
  assumes "on_table E st vs t = Inr (res, t')"
  shows "auto_increment t \<le> auto_increment t' \<and>
         (distinct (map Id_col (rows t)) \<longrightarrow> distinct (map Id_col (rows t')))"
proof (cases st)
  case INSERT
  then obtain n d p where "insert_statement E n d p t = Inr (res, t')"
    using assms by (auto split: list.splits)
  from insert_statement_effect [OF this] obtain x where
    fresh: "\<forall>r\<in>set (rows t). Id_col r \<noteq> auto_increment t"
    and t': "rows t' = rows t @ [x]" "Id_col x = auto_increment t"
      "auto_increment t' = auto_increment t + 1"
    by auto
  show ?thesis using fresh t' by fastforce
next
  case UPDATE
  then obtain n d p i where "update_statement E n d p i t = Inr (res, t')"
    using assms by (auto split: list.splits option.splits)
  from update_statement_effect [OF this] show ?thesis by simp
next
  case DELETE
  then obtain i where "delete_rows E i t = Inr (res, t')"
    using assms by (auto split: list.splits option.splits)
  from delete_rows_effect [OF this] show ?thesis by (auto simp: distinct_map_filter)
qed (use assms in \<open>auto split: list.splits option.splits\<close>)

lemma on_table_length:
  assumes "on_table E st vs t = Inr (res, t')" and "st \<noteq> DELETE"
  shows "length (rows t') = length (rows t) + (if st = INSERT then 1 else 0)"
proof (cases st)
  case INSERT
  then obtain n d p where "insert_statement E n d p t = Inr (res, t')"
    using assms by (auto split: list.splits)
  from insert_statement_effect [OF this] show ?thesis using INSERT by auto
next
  case UPDATE
  then obtain n d p i where "update_statement E n d p i t = Inr (res, t')"
    using assms by (auto split: list.splits option.splits)
  from update_statement_effect [OF this] show ?thesis using UPDATE by simp
qed (use assms in \<open>auto split: list.splits option.splits\<close>)

section \<open>How a statement changes the server\<close>

lemma exec_insert_effect:
  assumes "exec E INSERT [n, d, p] s = Inr (res, s')"
  shows "\<exists>t a b c n' d' p'. s = Table t \<and> bound_values E n d p = Inr (a, b, c) \<and>
           convert_fields E a b c = Inr (n', d', p') \<and>
           insertId res = auto_increment t \<and>
           (\<forall>r\<in>set (rows t). Id_col r \<noteq> auto_increment t) \<and>
           s' = Table \<lparr>rows = rows t @ [\<lparr>Id_col = auto_increment t, Nome = n', Descricao = d', Preco = p'\<rparr>],
                       auto_increment = auto_increment t + 1\<rparr>"
proof -
  from exec_on_table [OF assms] obtain t t' where
    s: "s = Table t" "s' = Table t'" and o: "on_table E INSERT [n, d, p] t = Inr (res, t')"
    by auto
  from o have "insert_statement E n d p t = Inr (res, t')" by simp
  from insert_statement_effect [OF this] show ?thesis using s by blast
qed

lemma exec_key_ok:
  assumes "exec E st vs s = Inr (res, s')" and "key_ok s"
  shows "key_ok s' \<and> next_id s \<le> next_id s'"
proof (cases "st = CREATE_SCRIPT \<or> st = USE")
  case True
  then show ?thesis using assms by (cases s) (auto simp: key_ok_def fresh_table_def)
next
  case False
  with exec_on_table [OF assms(1)] obtain t t' where
    s: "s = Table t" "s' = Table t'" and o: "on_table E st vs t = Inr (res, t')"
    by auto
  from on_table_key_ok [OF o] show ?thesis using assms(2) unfolding s by (auto simp: key_ok_def)
qed

lemma exec_length:
  assumes "exec E st vs s = Inr (res, s')" and "st \<noteq> DELETE"
  shows "length (stored_rows s') = length (stored_rows s) + (if st = INSERT then 1 else 0)"
proof (cases "st = CREATE_SCRIPT \<or> st = USE")
  case True
  then show ?thesis using assms by (cases s) (auto simp: fresh_table_def)
next
  case False
  with exec_on_table [OF assms(1)] obtain t t' where
    s: "s = Table t" "s' = Table t'" and o: "on_table E st vs t = Inr (res, t')"
    by auto
  from on_table_length [OF o assms(2)] show ?thesis unfolding s by simp
qed

section \<open>How a handler of server.js changes the server\<close>

lemma handle_created:
  assumes "handle E r s = (resp, s', qs)" and "status resp = 201"
  shows "\<exists>n d p res. exec E INSERT [n, d, p] s = Inr (res, s') \<and> payload resp = Json_id (insertId res)"
proof (cases r)
  case (POST_produtos rb)
  then show ?thesis using assms
    by (fastforce simp: post_produtos_def Let_def internal_error_def uncaught_def
        split: if_splits sum.splits req_body.splits dest!: pool_query_send)
qed (use assms in \<open>auto simp: post_init_db_def get_produtos_def get_produtos_id_def put_produtos_id_def
      delete_produtos_id_def Let_def internal_error_def uncaught_def
      split: if_splits sum.splits list.splits req_body.splits\<close>)

lemma handle_not_created:
  assumes "handle E r s = (resp, s', qs)" and "status resp \<noteq> 201"
  shows "s' = s \<or> (\<exists>st vs res. exec E st vs s = Inr (res, s') \<and> st \<noteq> INSERT \<and>
                      (st = DELETE \<longrightarrow> is_delete r))"
proof (cases r)
  case POST_init_db
  then have "s' = s \<or> (\<exists>res. exec E CREATE_SCRIPT [] s = Inr (res, s'))"
    using assms(1)
    by (auto simp: post_init_db_def Let_def internal_error_def split: sum.splits dest!: pool_query_send)
  then show ?thesis by fastforce
next
  case GET_produtos
  then have "s' = s"
    using assms(1) by (cases s) (auto simp: get_produtos_def Let_def internal_error_def)
  then show ?thesis by simp
next
  case (GET_produtos_id i)
  then have "s' = s"
    using assms(1)
    by (cases s) (auto simp: get_produtos_id_def Let_def internal_error_def split: list.splits)
  then show ?thesis by simp
next
  case (POST_produtos rb)
  then have "s' = s"
    using assms
    by (auto simp: post_produtos_def Let_def internal_error_def uncaught_def
        split: if_splits sum.splits req_body.splits)
  then show ?thesis by simp
next
  case (PUT_produtos_id i rb)
  then have "s' = s \<or> (\<exists>vs res. exec E UPDATE vs s = Inr (res, s'))"
    using assms(1)
    by (auto simp: put_produtos_id_def Let_def internal_error_def uncaught_def
        split: if_splits sum.splits req_body.splits dest!: pool_query_send)
  then show ?thesis by fastforce
next
  case (DELETE_produtos_id i)
  then have "s' = s \<or> (\<exists>vs res. exec E DELETE vs s = Inr (res, s'))"
    using assms(1)
    by (auto simp: delete_produtos_id_def Let_def internal_error_def split: if_splits sum.splits
        dest!: pool_query_send)
  then show ?thesis using DELETE_produtos_id by fastforce
qed

lemma handle_key_ok:
  assumes "handle E r s = (resp, s', qs)" and "key_ok s"
  shows "key_ok s' \<and> next_id s \<le> next_id s'"
proof (cases "status resp = 201")
  case True
  from handle_created [OF assms(1) True] show ?thesis using exec_key_ok assms(2) by blast
next
  case False
  from handle_not_created [OF assms(1) False] show ?thesis using exec_key_ok assms(2) by fastforce
qed

lemma handle_table:
  assumes "handle E r (Table t) = (resp, s', qs)"
  shows "\<exists>t'. s' = Table t'"
proof (cases "status resp = 201")
  case True
  from handle_created [OF assms(1) True] show ?thesis using exec_table by blast
next
  case False
  from handle_not_created [OF assms(1) False] show ?thesis using exec_table by blast
qed

lemma handle_length:
  assumes "handle E r s = (resp, s', qs)" and "\<not> is_delete r"
  shows "length (stored_rows s') = length (stored_rows s) + (if status resp = 201 then 1 else 0)"
proof (cases "status resp = 201")
  case True
  from handle_created [OF assms(1) True] obtain n d p res where
    "exec E INSERT [n, d, p] s = Inr (res, s')" by blast
  from exec_length [OF this] show ?thesis using True by simp
next
  case False
  from handle_not_created [OF assms(1) False] show ?thesis
  proof
    assume "s' = s" then show ?thesis using False by simp
  next
    assume "\<exists>st vs res. exec E st vs s = Inr (res, s') \<and> st \<noteq> INSERT \<and>
                      (st = DELETE \<longrightarrow> is_delete r)"
    then obtain st vs res where e: "exec E st vs s = Inr (res, s')" and q: "st \<noteq> INSERT"
      "st \<noteq> DELETE" using assms(2) by blast
    from exec_length [OF e q(2)] show ?thesis using q(1) False by simp
  qed
qed

section \<open>Runs\<close>

lemma run_Cons_elim:
  assumes "run h (r # rs) s = (resps, s'')"
  obtains resp s' qs resps' where "h r s = (resp, s', qs)" "run h rs s' = (resps', s'')" "resps = resp # resps'"
  using assms by (auto split: prod.splits)

lemma run_table:
  "run (handle E) reqs (Table t) = (resps, s') \<Longrightarrow> \<exists>t'. s' = Table t'"
proof (induction reqs arbitrary: t resps)
  case Nil
  then show ?case by auto
next
  case (Cons r rs)
  from Cons.prems obtain resp s1 qs resps' where
    h: "handle E r (Table t) = (resp, s1, qs)" and rest: "run (handle E) rs s1 = (resps', s')"
    by (rule run_Cons_elim)
  from handle_table [OF h] obtain t1 where "s1 = Table t1" by blast
  then show ?case using Cons.IH rest by blast
qed

lemma run_length:
  "list_all (\<lambda>r. \<not> is_delete r) reqs \<Longrightarrow> run (handle E) reqs s = (resps, s') \<Longrightarrow>
   length (stored_rows s') = length (stored_rows s) + count_created resps"
proof (induction reqs arbitrary: s resps)
  case Nil
  then show ?case by (simp add: count_created_def)
next
  case (Cons r rs)
  from Cons.prems(2) obtain resp s1 qs resps' where
    h: "handle E r s = (resp, s1, qs)" and rest: "run (handle E) rs s1 = (resps', s')"
    and resps: "resps = resp # resps'"
    by (rule run_Cons_elim)
  from Cons.prems(1) have nd: "\<not> is_delete r" and nds: "list_all (\<lambda>r. \<not> is_delete r) rs" by simp_all
  from handle_length [OF h nd] Cons.IH [OF nds rest] show ?case
    unfolding resps by (simp add: count_created_def)
qed

lemma run_key_ok:
  "key_ok s \<Longrightarrow> run (handle E) reqs s = (resps, s') \<Longrightarrow>
   key_ok s' \<and> next_id s \<le> next_id s' \<and> distinct (created_ids resps) \<and>
   (\<forall>i\<in>set (created_ids resps). next_id s \<le> i \<and> i < next_id s')"
proof (induction reqs arbitrary: s resps)
  case Nil
  then show ?case by simp
next
  case (Cons r rs)
  from Cons.prems(2) obtain resp s1 qs resps' where
    h: "handle E r s = (resp, s1, qs)" and rest: "run (handle E) rs s1 = (resps', s')"
    and resps: "resps = resp # resps'"
    by (rule run_Cons_elim)
  from handle_key_ok [OF h Cons.prems(1)] have k1: "key_ok s1" and m1: "next_id s \<le> next_id s1"
    by simp_all
  from Cons.IH [OF k1 rest] have
    k': "key_ok s'" and m': "next_id s1 \<le> next_id s'" and d': "distinct (created_ids resps')"
    and b': "\<forall>i\<in>set (created_ids resps'). next_id s1 \<le> i \<and> i < next_id s'"
    by simp_all
  show ?case
  proof (cases "status resp = 201")
    case True
    from handle_created [OF h True] obtain n d p res where
      e: "exec E INSERT [n, d, p] s = Inr (res, s1)" and pl: "payload resp = Json_id (insertId res)"
      by blast
    from exec_insert_effect [OF e] have i: "insertId res = next_id s" and n1: "next_id s1 = next_id s + 1"
      by auto
    have c: "created_ids resps = next_id s # created_ids resps'"
      unfolding resps using True pl i by simp
    show ?thesis unfolding c using k' m' d' b' n1 by auto
  next
    case False
    have c: "created_ids resps = created_ids resps'"
      unfolding resps using False by (simp split: payload.splits)
    show ?thesis unfolding c using k' m1 m' d' b' by auto
  qed
qed

lemma key_ok_initial [simp]: "key_ok NoDatabase" "key_ok NoTable"
  by (simp_all add: key_ok_def)

section \<open>Validation of the fields\<close>




section \<open>Lookup by id\<close>

lemma select_found:
  assumes "\<exists>r\<in>set xs. m r"
  shows "\<exists>r rs. filter m xs = r # rs \<and> r \<in> set xs \<and> m r"
proof (cases "filter m xs")
  case Nil
  then show ?thesis using assms by (auto simp: filter_empty_conv)
next
  case (Cons r rs)
  have "r \<in> set (filter m xs)" unfolding Cons by simp
  then have "r \<in> set xs \<and> m r" by (simp only: set_filter mem_Collect_eq)
  then show ?thesis using Cons by blast
qed

lemma select_none:
  "\<forall>r\<in>set xs. \<not> m r \<Longrightarrow> filter m xs = []"
  by (simp add: filter_empty_conv)

lemma demo_read_key_examples [simp]:
  "demo_read_key ''1'' = (1, True)" "demo_read_key ''2'' = (2, True)"
  "demo_read_key ''7'' = (7, True)" "demo_read_key ''1abc'' = (1, False)"
  by (simp_all add: demo_read_key_def digit_of_def)

text \<open>
  C2, as stated, fails: the handlers bind the route parameter as it is, and the server
  reads the text \<open>1abc\<close> as the number 1, so GetById of the id \<open>1abc\<close>, which no row has,
  returns the product with Id 1.
\<close>

theorem C2_counterexample:
  "get_produtos_id demo_env ''1abc''
     (Table \<lparr>rows = [\<lparr>Id_col = 1, Nome = ''Caneta'', Descricao = ''Azul'', Preco = 5 / 2\<rparr>],
             auto_increment = 2\<rparr>) =
     (\<lparr>status = 200, payload = Json_produto \<lparr>Id_col = 1, Nome = ''Caneta'', Descricao = ''Azul'', Preco = 5 / 2\<rparr>\<rparr>,
      Table \<lparr>rows = [\<lparr>Id_col = 1, Nome = ''Caneta'', Descricao = ''Azul'', Preco = 5 / 2\<rparr>],
             auto_increment = 2\<rparr>,
      [(''SELECT * FROM produto WHERE Id = ?'', [JStr ''1abc''])])"
  by (simp add: get_produtos_id_def Let_def select_rows_def key_matches_def rows_result_def)

text \<open>
  C2 (amended). On a server that has the table, in both server files, for every id text:
  when a row exists whose Id equals the number the database server reads from the text,
  GetById answers with status 200 and a row of the table with that Id; when no row has
  it, GetById answers with status 404 and no product. The table is unchanged.
\<close>

theorem C2_get_by_id:
  "((\<exists>r\<in>set (rows t). of_int (Id_col r) = fst (read_key E i)) \<longrightarrow>
      (\<exists>r\<in>set (rows t). of_int (Id_col r) = fst (read_key E i) \<and>
         get_produtos_id E i (Table t) =
           (\<lparr>status = 200, payload = Json_produto r\<rparr>, Table t,
            [(''SELECT * FROM produto WHERE Id = ?'', [JStr i])]) \<and>
         part0_get_produtos_id E i (Table t) =
           (\<lparr>status = 200, payload = Json_produto r\<rparr>, Table t,
            [(use_db (DB_NAME E), []), (''SELECT * FROM produto WHERE id = ?'', [JStr i])]))) \<and>
   ((\<forall>r\<in>set (rows t). of_int (Id_col r) \<noteq> fst (read_key E i)) \<longrightarrow>
      get_produtos_id E i (Table t) =
        (\<lparr>status = 404, payload = Json_error Produto_nao_encontrado\<rparr>, Table t,
         [(''SELECT * FROM produto WHERE Id = ?'', [JStr i])]) \<and>
      part0_get_produtos_id E i (Table t) =
        (\<lparr>status = 404, payload = Json_error Produto_nao_encontrado\<rparr>, Table t,
         [(use_db (DB_NAME E), []), (''SELECT * FROM produto WHERE id = ?'', [JStr i])]))"
proof (intro conjI impI)
  assume "\<exists>r\<in>set (rows t). of_int (Id_col r) = fst (read_key E i)"
  then have "\<exists>r\<in>set (rows t). key_matches E i r" by (simp add: key_matches_def)
  from select_found [OF this] obtain r rs
    where f: "filter (key_matches E i) (rows t) = r # rs" and r: "r \<in> set (rows t)" "key_matches E i r"
    by blast
  have "get_produtos_id E i (Table t) =
      (\<lparr>status = 200, payload = Json_produto r\<rparr>, Table t,
       [(''SELECT * FROM produto WHERE Id = ?'', [JStr i])])"
    by (simp add: get_produtos_id_def Let_def select_rows_def rows_result_def f)
  moreover have "part0_get_produtos_id E i (Table t) =
      (\<lparr>status = 200, payload = Json_produto r\<rparr>, Table t,
       [(use_db (DB_NAME E), []), (''SELECT * FROM produto WHERE id = ?'', [JStr i])])"
    by (simp add: part0_get_produtos_id_def part0_pool_query_def Let_def select_rows_def rows_result_def f)
  ultimately show "\<exists>r\<in>set (rows t). of_int (Id_col r) = fst (read_key E i) \<and>
         get_produtos_id E i (Table t) =
           (\<lparr>status = 200, payload = Json_produto r\<rparr>, Table t,
            [(''SELECT * FROM produto WHERE Id = ?'', [JStr i])]) \<and>
         part0_get_produtos_id E i (Table t) =
           (\<lparr>status = 200, payload = Json_produto r\<rparr>, Table t,
            [(use_db (DB_NAME E), []), (''SELECT * FROM produto WHERE id = ?'', [JStr i])])"
    using r by (auto simp: key_matches_def)
next
  assume "\<forall>r\<in>set (rows t). of_int (Id_col r) \<noteq> fst (read_key E i)"
  then have a: "\<forall>r\<in>set (rows t). \<not> key_matches E i r" by (simp add: key_matches_def)
  show "get_produtos_id E i (Table t) =
        (\<lparr>status = 404, payload = Json_error Produto_nao_encontrado\<rparr>, Table t,
         [(''SELECT * FROM produto WHERE Id = ?'', [JStr i])])"
    by (simp add: get_produtos_id_def Let_def select_rows_def rows_result_def select_none [OF a])
  show "part0_get_produtos_id E i (Table t) =
        (\<lparr>status = 404, payload = Json_error Produto_nao_encontrado\<rparr>, Table t,
         [(use_db (DB_NAME E), []), (''SELECT * FROM produto WHERE id = ?'', [JStr i])])"
    by (simp add: part0_get_produtos_id_def part0_pool_query_def Let_def select_rows_def rows_result_def
        select_none [OF a])
qed

theorem C2_get_by_id_witness:
  "get_produtos_id demo_env ''1''
     (Table \<lparr>rows = [\<lparr>Id_col = 1, Nome = ''Caneta'', Descricao = ''Azul'', Preco = 5 / 2\<rparr>],
             auto_increment = 2\<rparr>) =
     (\<lparr>status = 200, payload = Json_produto \<lparr>Id_col = 1, Nome = ''Caneta'', Descricao = ''Azul'', Preco = 5 / 2\<rparr>\<rparr>,
      Table \<lparr>rows = [\<lparr>Id_col = 1, Nome = ''Caneta'', Descricao = ''Azul'', Preco = 5 / 2\<rparr>],
             auto_increment = 2\<rparr>,
      [(''SELECT * FROM produto WHERE Id = ?'', [JStr ''1''])]) \<and>
   get_produtos_id demo_env ''2''
     (Table \<lparr>rows = [\<lparr>Id_col = 1, Nome = ''Caneta'', Descricao = ''Azul'', Preco = 5 / 2\<rparr>],
             auto_increment = 2\<rparr>) =
     (\<lparr>status = 404, payload = Json_error Produto_nao_encontrado\<rparr>,
      Table \<lparr>rows = [\<lparr>Id_col = 1, Nome = ''Caneta'', Descricao = ''Azul'', Preco = 5 / 2\<rparr>],
             auto_increment = 2\<rparr>,
      [(''SELECT * FROM produto WHERE Id = ?'', [JStr ''2''])])"
  using
    C2_get_by_id [where t = "\<lparr>rows = [\<lparr>Id_col = 1, Nome = ''Caneta'', Descricao = ''Azul'', Preco = 5 / 2\<rparr>],
                      auto_increment = 2\<rparr>" and E = demo_env and i = "''1''"]
    C2_get_by_id [where t = "\<lparr>rows = [\<lparr>Id_col = 1, Nome = ''Caneta'', Descricao = ''Azul'', Preco = 5 / 2\<rparr>],
                      auto_increment = 2\<rparr>" and E = demo_env and i = "''2''"]
  by simp

section \<open>Update of an id that is not stored\<close>

lemma scalar_escape: "scalar v \<Longrightarrow> \<exists>l. escape v = [E_lit l]"
  by (cases v) simp_all

lemma slot_values_literals [simp]:
  "slot_values [E_lit a] [E_lit b] [E_lit c] v = Inr (a, b, c)"
  by (cases v) (simp add: slot_values_def slot_value_def)

lemma plain_literal [simp]: "plain [E_lit l]"
  by (simp add: plain_def)

lemma plain_word [simp]: "plain [E_word w]"
  by (simp add: plain_def)

lemma update_rows_missing:
  assumes "\<not> key_refused E i" and "\<forall>r\<in>set (rows t). \<not> key_matches E i r"
  shows "update_rows E a b c i t = Inr (header 0 0, t)"
  using assms by (simp add: update_rows_def list_ex_iff)

text \<open>
  C3, as stated, fails: a \<open>Preco\<close> beyond the range of a double parses to an infinity,
  which passes the validation and is written into the statement as the bare word
  \<open>Infinity\<close>; the server rejects the statement whatever the id, and Update of an id that
  is not stored is answered with status 500, not 404.
\<close>

theorem C3_counterexample:
  "\<not> js_not (fields (JStr ''Lapis'') (JStr ''Preto'') JInfinity ''Nome'') \<and>
   \<not> js_not (fields (JStr ''Lapis'') (JStr ''Preto'') JInfinity ''Descricao'') \<and>
   \<not> js_eq_null (fields (JStr ''Lapis'') (JStr ''Preto'') JInfinity ''Preco'') \<and>
   put_produtos_id demo_env ''7'' (Body (fields (JStr ''Lapis'') (JStr ''Preto'') JInfinity))
     (Table \<lparr>rows = [\<lparr>Id_col = 1, Nome = ''Caneta'', Descricao = ''Azul'', Preco = 5 / 2\<rparr>],
             auto_increment = 2\<rparr>) =
     (\<lparr>status = 500, payload = Json_error (Err_message ER_BAD_FIELD_ERROR)\<rparr>,
      Table \<lparr>rows = [\<lparr>Id_col = 1, Nome = ''Caneta'', Descricao = ''Azul'', Preco = 5 / 2\<rparr>],
             auto_increment = 2\<rparr>,
      [(''UPDATE produto SET Nome = ?, Descricao = ?, Preco = ? WHERE Id = ?'',
        [JStr ''Lapis'', JStr ''Preto'', JInfinity, JStr ''7''])])"
  by (simp add: put_produtos_id_def Let_def update_statement_def slot_values_def slot_value_def
      internal_error_def)

text \<open>
  C3 (amended). When the three fields are strings, finite numbers or booleans that pass
  the validation, the id text is one the database server does not refuse, and no row of
  the table has the Id the server reads from it, Update answers with status 404 and
  leaves the table as it was: no row is created or modified.
\<close>

theorem C3_update_missing_id:
  assumes "\<not> js_not (b ''Nome'')" and "\<not> js_not (b ''Descricao'')" and "\<not> js_eq_null (b ''Preco'')"
    and "scalar (b ''Nome'')" and "scalar (b ''Descricao'')" and "scalar (b ''Preco'')"
    and "snd (read_key E i) \<or> \<not> refuses_truncated_key E"
    and "\<forall>r\<in>set (rows t). of_int (Id_col r) \<noteq> fst (read_key E i)"
  shows "put_produtos_id E i (Body b) (Table t) =
           (\<lparr>status = 404, payload = Json_error Produto_nao_encontrado\<rparr>, Table t,
            [(''UPDATE produto SET Nome = ?, Descricao = ?, Preco = ? WHERE Id = ?'',
              [b ''Nome'', b ''Descricao'', b ''Preco'', JStr i])])"
proof -
  from assms(4-6) scalar_escape obtain ln ld lp where
    l: "escape (b ''Nome'') = [E_lit ln]" "escape (b ''Descricao'') = [E_lit ld]"
       "escape (b ''Preco'') = [E_lit lp]"
    by metis
  have k: "\<not> key_refused E i" using assms(7) by (auto simp: key_refused_def)
  have m: "\<forall>r\<in>set (rows t). \<not> key_matches E i r" using assms(8) by (simp add: key_matches_def)
  show ?thesis
    using assms(1-3)
    by (simp add: put_produtos_id_def Let_def l update_statement_def update_rows_missing [OF k m]
        header_def)
qed

theorem C3_update_missing_id_witness:
  "put_produtos_id demo_env ''7'' (Body (fields (JStr ''Lapis'') (JStr ''Preto'') (JNum 3)))
     (Table \<lparr>rows = [\<lparr>Id_col = 1, Nome = ''Caneta'', Descricao = ''Azul'', Preco = 5 / 2\<rparr>],
             auto_increment = 2\<rparr>) =
     (\<lparr>status = 404, payload = Json_error Produto_nao_encontrado\<rparr>,
      Table \<lparr>rows = [\<lparr>Id_col = 1, Nome = ''Caneta'', Descricao = ''Azul'', Preco = 5 / 2\<rparr>],
             auto_increment = 2\<rparr>,
      [(''UPDATE produto SET Nome = ?, Descricao = ?, Preco = ? WHERE Id = ?'',
        [JStr ''Lapis'', JStr ''Preto'', JNum 3, JStr ''7''])])"
  using C3_update_missing_id [where b = "fields (JStr ''Lapis'') (JStr ''Preto'') (JNum 3)"
      and t = "\<lparr>rows = [\<lparr>Id_col = 1, Nome = ''Caneta'', Descricao = ''Azul'', Preco = 5 / 2\<rparr>],
        auto_increment = 2\<rparr>" and i = "''7''" and E = demo_env]
  by simp

section \<open>Delete, twice\<close>

lemma delete_produtos_id_table:
  "delete_produtos_id E i (Table t) =
     (if key_refused E i
      then (\<lparr>status = 500, payload = Json_error (Err_message ER_TRUNCATED_WRONG_VALUE)\<rparr>, Table t,
            [(''DELETE FROM produto WHERE Id = ?'', [JStr i])])
      else if filter (key_matches E i) (rows t) = []
      then (\<lparr>status = 404, payload = Json_error Produto_nao_encontrado\<rparr>,
            Table (t\<lparr>rows := filter (\<lambda>r. \<not> key_matches E i r) (rows t)\<rparr>),
            [(''DELETE FROM produto WHERE Id = ?'', [JStr i])])
      else (\<lparr>status = 200, payload = Json_message Produto_deletado_com_sucesso\<rparr>,
            Table (t\<lparr>rows := filter (\<lambda>r. \<not> key_matches E i r) (rows t)\<rparr>),
            [(''DELETE FROM produto WHERE Id = ?'', [JStr i])]))"
  by (simp add: delete_produtos_id_def Let_def delete_rows_def header_def internal_error_def)

lemma delete_produtos_id_no_table:
  "status (fst (delete_produtos_id E i NoTable)) = 500"
  "status (fst (delete_produtos_id E i NoDatabase)) = 500"
  by (simp_all add: delete_produtos_id_def Let_def internal_error_def)

text \<open>
  C4. After a Delete of an id has succeeded (status 200), a second Delete of the same id
  answers with status 404, and the server state after the second call is the state after
  the first.
\<close>

theorem C4_delete_twice:
  assumes "delete_produtos_id E i s = (r1, s1, q1)" and "status r1 = 200"
  shows "delete_produtos_id E i s1 =
           (\<lparr>status = 404, payload = Json_error Produto_nao_encontrado\<rparr>, s1,
            [(''DELETE FROM produto WHERE Id = ?'', [JStr i])])"
proof (cases s)
  case NoDatabase
  then show ?thesis using assms delete_produtos_id_no_table(2) [of E i] by simp
next
  case NoTable
  then show ?thesis using assms delete_produtos_id_no_table(1) [of E i] by simp
next
  case (Table t)
  then have k: "\<not> key_refused E i"
    and s1: "s1 = Table (t\<lparr>rows := filter (\<lambda>r. \<not> key_matches E i r) (rows t)\<rparr>)"
    using assms by (auto simp: delete_produtos_id_table split: if_splits)
  show ?thesis unfolding s1 using k by (simp add: delete_produtos_id_table)
qed

theorem C4_delete_twice_witness:
  "delete_produtos_id demo_env ''1''
     (Table \<lparr>rows = [\<lparr>Id_col = 1, Nome = ''Caneta'', Descricao = ''Azul'', Preco = 5 / 2\<rparr>],
             auto_increment = 2\<rparr>) =
     (\<lparr>status = 200, payload = Json_message Produto_deletado_com_sucesso\<rparr>,
      Table \<lparr>rows = [], auto_increment = 2\<rparr>, [(''DELETE FROM produto WHERE Id = ?'', [JStr ''1''])]) \<and>
   delete_produtos_id demo_env ''1'' (Table \<lparr>rows = [], auto_increment = 2\<rparr>) =
     (\<lparr>status = 404, payload = Json_error Produto_nao_encontrado\<rparr>,
      Table \<lparr>rows = [], auto_increment = 2\<rparr>, [(''DELETE FROM produto WHERE Id = ?'', [JStr ''1''])])"
proof -
  have first: "delete_produtos_id demo_env ''1''
     (Table \<lparr>rows = [\<lparr>Id_col = 1, Nome = ''Caneta'', Descricao = ''Azul'', Preco = 5 / 2\<rparr>],
             auto_increment = 2\<rparr>) =
     (\<lparr>status = 200, payload = Json_message Produto_deletado_com_sucesso\<rparr>,
      Table \<lparr>rows = [], auto_increment = 2\<rparr>, [(''DELETE FROM produto WHERE Id = ?'', [JStr ''1''])])"
    by (simp add: delete_produtos_id_table key_refused_def key_matches_def)
  show ?thesis using first C4_delete_twice [OF first] by simp
qed

section \<open>List and the number of rows\<close>

lemma get_produtos_table:
  "get_produtos E (Table t) =
     (\<lparr>status = 200, payload = Json_produtos (rows t)\<rparr>, Table t, [(''SELECT * FROM produto'', [])])"
  by (simp add: get_produtos_def Let_def rows_result_def)

lemmas insert_eval =
  post_produtos_def Let_def insert_statement_def bound_values_def insert_row_def convert_fields_def
  varchar_255_def decimal_10_2_def round_half_away_def fresh_table_def header_def

lemma decimal_examples [simp]:
  "decimal_10_2 (5 / 2) = Inr (5 / 2)" "decimal_10_2 1 = Inr 1"
  "decimal_10_2 (2559 / 1000) = Inr (64 / 25)"
  by (simp_all add: decimal_10_2_def round_half_away_def)

text \<open>
  C5. List on an empty table answers with status 200 and the empty array. Starting from an
  empty table, after any sequence of requests without a Delete, List answers with status
  200 and as many entries as Creates succeeded (were answered 201).
\<close>

theorem C5_list_count:
  "get_produtos E (Table \<lparr>rows = [], auto_increment = a\<rparr>) =
     (\<lparr>status = 200, payload = Json_produtos []\<rparr>, Table \<lparr>rows = [], auto_increment = a\<rparr>,
      [(''SELECT * FROM produto'', [])]) \<and>
   (rows t0 = [] \<and> list_all (\<lambda>r. \<not> is_delete r) reqs \<and> run (handle E) reqs (Table t0) = (resps, s) \<longrightarrow>
      (\<exists>rs. get_produtos E s = (\<lparr>status = 200, payload = Json_produtos rs\<rparr>, s, [(''SELECT * FROM produto'', [])]) \<and>
            length rs = count_created resps))"
proof (intro conjI impI)
  show "get_produtos E (Table \<lparr>rows = [], auto_increment = a\<rparr>) =
     (\<lparr>status = 200, payload = Json_produtos []\<rparr>, Table \<lparr>rows = [], auto_increment = a\<rparr>,
      [(''SELECT * FROM produto'', [])])"
    by (simp add: get_produtos_table)
next
  assume a: "rows t0 = [] \<and> list_all (\<lambda>r. \<not> is_delete r) reqs \<and> run (handle E) reqs (Table t0) = (resps, s)"
  then obtain t where s: "s = Table t" using run_table by blast
  from a run_length [of reqs E "Table t0" resps s] have "length (rows t) = count_created resps"
    unfolding s by simp
  then show "\<exists>rs. get_produtos E s = (\<lparr>status = 200, payload = Json_produtos rs\<rparr>, s, [(''SELECT * FROM produto'', [])]) \<and>
            length rs = count_created resps"
    unfolding s by (simp add: get_produtos_table)
qed

theorem C5_list_count_witness:
  "run (handle demo_env)
     [POST_produtos (Body (fields (JStr ''Caneta'') (JStr ''Azul'') (JNum (5 / 2)))),
      POST_produtos (Body (fields (JStr ''Lapis'') JUndefined (JNum 1))),
      POST_produtos (Body (fields (JStr ''Lapis'') (JStr ''Preto'') (JNum 1)))]
     (Table fresh_table) =
     ([\<lparr>status = 201, payload = Json_id 1\<rparr>,
       \<lparr>status = 400, payload = Json_error Campos_obrigatorios_Nome_Descricao_Preco\<rparr>,
       \<lparr>status = 201, payload = Json_id 2\<rparr>],
      Table \<lparr>rows = [\<lparr>Id_col = 1, Nome = ''Caneta'', Descricao = ''Azul'', Preco = 5 / 2\<rparr>,
                     \<lparr>Id_col = 2, Nome = ''Lapis'', Descricao = ''Preto'', Preco = 1\<rparr>],
             auto_increment = 3\<rparr>) \<and>
   (\<exists>rs. get_produtos demo_env
           (Table \<lparr>rows = [\<lparr>Id_col = 1, Nome = ''Caneta'', Descricao = ''Azul'', Preco = 5 / 2\<rparr>,
                          \<lparr>Id_col = 2, Nome = ''Lapis'', Descricao = ''Preto'', Preco = 1\<rparr>],
                   auto_increment = 3\<rparr>) =
           (\<lparr>status = 200, payload = Json_produtos rs\<rparr>,
            Table \<lparr>rows = [\<lparr>Id_col = 1, Nome = ''Caneta'', Descricao = ''Azul'', Preco = 5 / 2\<rparr>,
                           \<lparr>Id_col = 2, Nome = ''Lapis'', Descricao = ''Preto'', Preco = 1\<rparr>],
                   auto_increment = 3\<rparr>,
            [(''SELECT * FROM produto'', [])]) \<and>
         length rs = 2)"
proof -
  have r: "run (handle demo_env)
     [POST_produtos (Body (fields (JStr ''Caneta'') (JStr ''Azul'') (JNum (5 / 2)))),
      POST_produtos (Body (fields (JStr ''Lapis'') JUndefined (JNum 1))),
      POST_produtos (Body (fields (JStr ''Lapis'') (JStr ''Preto'') (JNum 1)))]
     (Table fresh_table) =
     ([\<lparr>status = 201, payload = Json_id 1\<rparr>,
       \<lparr>status = 400, payload = Json_error Campos_obrigatorios_Nome_Descricao_Preco\<rparr>,
       \<lparr>status = 201, payload = Json_id 2\<rparr>],
      Table \<lparr>rows = [\<lparr>Id_col = 1, Nome = ''Caneta'', Descricao = ''Azul'', Preco = 5 / 2\<rparr>,
                     \<lparr>Id_col = 2, Nome = ''Lapis'', Descricao = ''Preto'', Preco = 1\<rparr>],
             auto_increment = 3\<rparr>)"
    by (simp add: insert_eval)
  have c: "count_created [\<lparr>status = 201, payload = Json_id 1\<rparr>,
       \<lparr>status = 400, payload = Json_error Campos_obrigatorios_Nome_Descricao_Preco\<rparr>,
       \<lparr>status = 201, payload = Json_id 2\<rparr>] = 2"
    by (simp add: count_created_def)
  have h: "rows fresh_table = [] \<and>
     list_all (\<lambda>r. \<not> is_delete r)
       [POST_produtos (Body (fields (JStr ''Caneta'') (JStr ''Azul'') (JNum (5 / 2)))),
        POST_produtos (Body (fields (JStr ''Lapis'') JUndefined (JNum 1))),
        POST_produtos (Body (fields (JStr ''Lapis'') (JStr ''Preto'') (JNum 1)))] \<and>
     run (handle demo_env)
       [POST_produtos (Body (fields (JStr ''Caneta'') (JStr ''Azul'') (JNum (5 / 2)))),
        POST_produtos (Body (fields (JStr ''Lapis'') JUndefined (JNum 1))),
        POST_produtos (Body (fields (JStr ''Lapis'') (JStr ''Preto'') (JNum 1)))]
       (Table fresh_table) =
     ([\<lparr>status = 201, payload = Json_id 1\<rparr>,
       \<lparr>status = 400, payload = Json_error Campos_obrigatorios_Nome_Descricao_Preco\<rparr>,
       \<lparr>status = 201, payload = Json_id 2\<rparr>],
      Table \<lparr>rows = [\<lparr>Id_col = 1, Nome = ''Caneta'', Descricao = ''Azul'', Preco = 5 / 2\<rparr>,
                     \<lparr>Id_col = 2, Nome = ''Lapis'', Descricao = ''Preto'', Preco = 1\<rparr>],
             auto_increment = 3\<rparr>)"
    using r by (simp add: fresh_table_def)
  from C5_list_count [THEN conjunct2, rule_format, OF h] show ?thesis
    unfolding c using r by blast
qed

section \<open>Create, then GetById\<close>

lemma round_half_away_of_int [simp]: "round_half_away (of_int z) = z"
proof -
  have "\<lfloor>(of_int z :: rat) + 1 / 2\<rfloor> = z" by (rule floor_unique) simp_all
  moreover have "\<lfloor>- (of_int z :: rat) + 1 / 2\<rfloor> = - z"
    using floor_unique [of "- z" "- (of_int z :: rat) + 1 / 2"] by simp
  ultimately show ?thesis by (simp add: round_half_away_def)
qed




section \<open>Generated ids\<close>

text \<open>
  C7. In every run of the handlers of \<open>server.js\<close> from a server without the table:
  the ids returned by the Creates that succeeded are positive and pairwise different (no id
  is issued twice), and in the state reached no two rows have the same Id. The columns of a
  row hold values, never null: in that state an INSERT binding a null or absent
  \<open>Nome\<close>, \<open>Descricao\<close> or \<open>Preco\<close> fails, and an UPDATE binding one changes
  nothing.
\<close>

theorem C7_ids:
  assumes "s0 = NoDatabase \<or> s0 = NoTable" and "run (handle E) reqs s0 = (resps, s)"
  shows "distinct (created_ids resps) \<and> (\<forall>i\<in>set (created_ids resps). 0 < i) \<and>
         distinct (map Id_col (stored_rows s)) \<and>
         (js_eq_null n \<or> js_eq_null d \<or> js_eq_null p \<longrightarrow>
            (\<exists>e. pool_query E
                   (''INSERT INTO produto (Nome, Descricao, Preco) VALUES (?, ?, ?)'', [n, d, p]) s = Inl e) \<and>
            (\<forall>res s'. pool_query E
                   (''UPDATE produto SET Nome = ?, Descricao = ?, Preco = ? WHERE Id = ?'', [n, d, p, JStr i]) s =
                   Inr (res, s') \<longrightarrow> s' = s))"
proof -
  have ok0: "key_ok s0" and n0: "next_id s0 = 1" using assms(1) by auto
  from run_key_ok [OF ok0 assms(2)] have
    ok: "key_ok s" and d: "distinct (created_ids resps)"
    and b: "\<forall>i\<in>set (created_ids resps). next_id s0 \<le> i \<and> i < next_id s"
    by simp_all
  have pos: "\<forall>i\<in>set (created_ids resps). 0 < i" using b n0 by auto
  have rows: "distinct (map Id_col (stored_rows s))" using ok by (simp add: key_ok_def)
  have nulls: "js_eq_null n \<or> js_eq_null d \<or> js_eq_null p \<longrightarrow>
            (\<exists>e. pool_query E
                   (''INSERT INTO produto (Nome, Descricao, Preco) VALUES (?, ?, ?)'', [n, d, p]) s = Inl e) \<and>
            (\<forall>res s'. pool_query E
                   (''UPDATE produto SET Nome = ?, Descricao = ?, Preco = ? WHERE Id = ?'', [n, d, p, JStr i]) s =
                   Inr (res, s') \<longrightarrow> s' = s)"
  proof (intro impI conjI allI)
    assume a: "js_eq_null n \<or> js_eq_null d \<or> js_eq_null p"
    show "\<exists>e. pool_query E
                   (''INSERT INTO produto (Nome, Descricao, Preco) VALUES (?, ?, ?)'', [n, d, p]) s = Inl e"
      using exec_insert_null [OF a, of E s] by (cases s) (simp_all add: pool_query_def)
    fix res s'
    assume "pool_query E
        (''UPDATE produto SET Nome = ?, Descricao = ?, Preco = ? WHERE Id = ?'', [n, d, p, JStr i]) s =
        Inr (res, s')"
    from pool_query_send [OF this] show "s' = s" using exec_update_null [OF a] by simp
  qed
  show ?thesis using d pos rows nulls by blast
qed

theorem C7_ids_witness:
  "run (handle demo_env)
     [POST_init_db,
      POST_produtos (Body (fields (JStr ''Caneta'') (JStr ''Azul'') (JNum (5 / 2)))),
      DELETE_produtos_id ''1'',
      POST_produtos (Body (fields (JStr ''Lapis'') (JStr ''Preto'') (JNum 1)))]
     NoTable =
     ([\<lparr>status = 200, payload = Send Banco_de_dados_e_tabela_criados_com_sucesso\<rparr>,
       \<lparr>status = 201, payload = Json_id 1\<rparr>,
       \<lparr>status = 200, payload = Json_message Produto_deletado_com_sucesso\<rparr>,
       \<lparr>status = 201, payload = Json_id 2\<rparr>],
      Table \<lparr>rows = [\<lparr>Id_col = 2, Nome = ''Lapis'', Descricao = ''Preto'', Preco = 1\<rparr>],
             auto_increment = 3\<rparr>) \<and>
   distinct [1, 2 :: int] \<and>
   (\<exists>e. pool_query demo_env
          (''INSERT INTO produto (Nome, Descricao, Preco) VALUES (?, ?, ?)'', [JNull, JStr ''Preto'', JNum 1])
          (Table \<lparr>rows = [\<lparr>Id_col = 2, Nome = ''Lapis'', Descricao = ''Preto'', Preco = 1\<rparr>],
                  auto_increment = 3\<rparr>) = Inl e)"
proof -
  have r: "run (handle demo_env)
     [POST_init_db,
      POST_produtos (Body (fields (JStr ''Caneta'') (JStr ''Azul'') (JNum (5 / 2)))),
      DELETE_produtos_id ''1'',
      POST_produtos (Body (fields (JStr ''Lapis'') (JStr ''Preto'') (JNum 1)))]
     NoTable =
     ([\<lparr>status = 200, payload = Send Banco_de_dados_e_tabela_criados_com_sucesso\<rparr>,
       \<lparr>status = 201, payload = Json_id 1\<rparr>,
       \<lparr>status = 200, payload = Json_message Produto_deletado_com_sucesso\<rparr>,
       \<lparr>status = 201, payload = Json_id 2\<rparr>],
      Table \<lparr>rows = [\<lparr>Id_col = 2, Nome = ''Lapis'', Descricao = ''Preto'', Preco = 1\<rparr>],
             auto_increment = 3\<rparr>)"
    by (simp add: post_init_db_def insert_eval delete_produtos_id_def delete_rows_def
        key_refused_def key_matches_def)
  from C7_ids [OF _ r, where n = JNull and d = "JStr ''Preto''" and p = "JNum 1" and i = "''1''"]
  show ?thesis using r by simp
qed

section \<open>Schema initialization\<close>







section \<open>The statement texts and the values spliced into them\<close>


lemma placeholders_texts [simp]:
  "placeholders ''SELECT * FROM produto'' = 0"
  "placeholders ''SELECT * FROM produto WHERE Id = ?'' = 1"
  "placeholders ''SELECT * FROM produto WHERE id = ?'' = 1"
  "placeholders ''INSERT INTO produto (Nome, Descricao, Preco) VALUES (?, ?, ?)'' = 3"
  "placeholders ''UPDATE produto SET Nome = ?, Descricao = ?, Preco = ? WHERE Id = ?'' = 4"
  "placeholders ''DELETE FROM produto WHERE Id = ?'' = 1"
  by (simp_all add: placeholders_def)






section \<open>A price of zero\<close>

text \<open>
  C10. In \<open>server.js\<close>, with \<open>Nome\<close> and \<open>Descricao\<close> non-empty strings of at most 255
  characters and \<open>Preco\<close> the number 0, no request is answered with status 400: Create
  stores a row with \<open>Preco = 0\<close> and answers 201 (while the counter is within INT and is
  not the Id of a stored row), and Update of a stored id overwrites the row with
  \<open>Preco = 0\<close> and answers 200 (when the server does not refuse the id text). A
  \<open>Nome\<close> or \<open>Descricao\<close> that is the empty string or the number 0 is answered with
  status 400 by both handlers, with no query and no change.
\<close>

theorem C10_preco_zero:
  "(b ''Nome'' = JStr n \<and> n \<noteq> [] \<and> length n \<le> 255 \<and>
    b ''Descricao'' = JStr d \<and> d \<noteq> [] \<and> length d \<le> 255 \<and> b ''Preco'' = JNum 0 \<longrightarrow>
      status (fst (post_produtos E (Body b) s)) \<noteq> 400 \<and>
      status (fst (put_produtos_id E i (Body b) s)) \<noteq> 400 \<and>
      (auto_increment t \<le> 2147483647 \<and> (\<forall>r\<in>set (rows t). Id_col r \<noteq> auto_increment t) \<longrightarrow>
         post_produtos E (Body b) (Table t) =
           (\<lparr>status = 201, payload = Json_id (auto_increment t)\<rparr>,
            Table \<lparr>rows = rows t @ [\<lparr>Id_col = auto_increment t, Nome = n, Descricao = d, Preco = 0\<rparr>],
                   auto_increment = auto_increment t + 1\<rparr>,
            [(''INSERT INTO produto (Nome, Descricao, Preco) VALUES (?, ?, ?)'',
              [JStr n, JStr d, JNum 0])])) \<and>
      ((\<exists>r\<in>set (rows t). of_int (Id_col r) = fst (read_key E i)) \<and>
       (snd (read_key E i) \<or> \<not> refuses_truncated_key E) \<longrightarrow>
         put_produtos_id E i (Body b) (Table t) =
           (\<lparr>status = 200, payload = Json_message Produto_atualizado_com_sucesso\<rparr>,
            Table (t\<lparr>rows := map (\<lambda>r. if of_int (Id_col r) = fst (read_key E i)
                                        then r\<lparr>Nome := n, Descricao := d, Preco := 0\<rparr>
                                        else r) (rows t)\<rparr>),
            [(''UPDATE produto SET Nome = ?, Descricao = ?, Preco = ? WHERE Id = ?'',
              [JStr n, JStr d, JNum 0, JStr i])]))) \<and>
   (b ''Nome'' = JStr [] \<or> b ''Nome'' = JNum 0 \<or> b ''Descricao'' = JStr [] \<or> b ''Descricao'' = JNum 0 \<longrightarrow>
      post_produtos E (Body b) s =
        (\<lparr>status = 400, payload = Json_error Campos_obrigatorios_Nome_Descricao_Preco\<rparr>, s, []) \<and>
      put_produtos_id E i (Body b) s =
        (\<lparr>status = 400, payload = Json_error Campos_obrigatorios_Nome_Descricao_Preco\<rparr>, s, []))"
proof (intro conjI impI)
  assume a: "b ''Nome'' = JStr n \<and> n \<noteq> [] \<and> length n \<le> 255 \<and>
    b ''Descricao'' = JStr d \<and> d \<noteq> [] \<and> length d \<le> 255 \<and> b ''Preco'' = JNum 0"
  then have cf: "convert_fields E (SqlText n) (SqlText d) (SqlNum 0) = Inr (n, d, 0)"
    by (simp add: convert_fields_def varchar_255_def)
  show "status (fst (post_produtos E (Body b) s)) \<noteq> 400"
    using a by (simp add: post_produtos_def Let_def internal_error_def split: sum.splits prod.splits)
  show "status (fst (put_produtos_id E i (Body b) s)) \<noteq> 400"
    using a by (simp add: put_produtos_id_def Let_def internal_error_def split: sum.splits prod.splits)
  {
    assume "auto_increment t \<le> 2147483647 \<and> (\<forall>r\<in>set (rows t). Id_col r \<noteq> auto_increment t)"
    then show "post_produtos E (Body b) (Table t) =
           (\<lparr>status = 201, payload = Json_id (auto_increment t)\<rparr>,
            Table \<lparr>rows = rows t @ [\<lparr>Id_col = auto_increment t, Nome = n, Descricao = d, Preco = 0\<rparr>],
                   auto_increment = auto_increment t + 1\<rparr>,
            [(''INSERT INTO produto (Nome, Descricao, Preco) VALUES (?, ?, ?)'',
              [JStr n, JStr d, JNum 0])])"
      using a
      by (simp add: post_produtos_def Let_def insert_statement_def bound_values_def insert_row_def cf
          header_def list_ex_iff)
  }
  {
    assume h: "(\<exists>r\<in>set (rows t). of_int (Id_col r) = fst (read_key E i)) \<and>
       (snd (read_key E i) \<or> \<not> refuses_truncated_key E)"
    then have ex: "list_ex (key_matches E i) (rows t)" and
      ne: "filter (key_matches E i) (rows t) \<noteq> []" and k: "\<not> key_refused E i"
      by (auto simp: list_ex_iff filter_empty_conv key_matches_def key_refused_def)
    show "put_produtos_id E i (Body b) (Table t) =
           (\<lparr>status = 200, payload = Json_message Produto_atualizado_com_sucesso\<rparr>,
            Table (t\<lparr>rows := map (\<lambda>r. if of_int (Id_col r) = fst (read_key E i)
                                        then r\<lparr>Nome := n, Descricao := d, Preco := 0\<rparr>
                                        else r) (rows t)\<rparr>),
            [(''UPDATE produto SET Nome = ?, Descricao = ?, Preco = ? WHERE Id = ?'',
              [JStr n, JStr d, JNum 0, JStr i])])"
      using a ex ne k
      by (simp add: put_produtos_id_def Let_def update_statement_def update_rows_def cf header_def
          key_matches_def)
  }
next
  assume "b ''Nome'' = JStr [] \<or> b ''Nome'' = JNum 0 \<or> b ''Descricao'' = JStr [] \<or> b ''Descricao'' = JNum 0"
  then show "post_produtos E (Body b) s =
        (\<lparr>status = 400, payload = Json_error Campos_obrigatorios_Nome_Descricao_Preco\<rparr>, s, [])"
    by (auto simp: post_produtos_def)
next
  assume "b ''Nome'' = JStr [] \<or> b ''Nome'' = JNum 0 \<or> b ''Descricao'' = JStr [] \<or> b ''Descricao'' = JNum 0"
  then show "put_produtos_id E i (Body b) s =
        (\<lparr>status = 400, payload = Json_error Campos_obrigatorios_Nome_Descricao_Preco\<rparr>, s, [])"
    by (auto simp: put_produtos_id_def)
qed

theorem C10_preco_zero_witness:
  "post_produtos demo_env (Body (fields (JStr ''Brinde'') (JStr ''Gratis'') (JNum 0))) (Table fresh_table) =
     (\<lparr>status = 201, payload = Json_id 1\<rparr>,
      Table \<lparr>rows = [\<lparr>Id_col = 1, Nome = ''Brinde'', Descricao = ''Gratis'', Preco = 0\<rparr>],
             auto_increment = 2\<rparr>,
      [(''INSERT INTO produto (Nome, Descricao, Preco) VALUES (?, ?, ?)'',
        [JStr ''Brinde'', JStr ''Gratis'', JNum 0])]) \<and>
   put_produtos_id demo_env ''1'' (Body (fields (JStr ''Brinde'') (JStr ''Gratis'') (JNum 0)))
     (Table \<lparr>rows = [\<lparr>Id_col = 1, Nome = ''Caneta'', Descricao = ''Azul'', Preco = 5 / 2\<rparr>],
             auto_increment = 2\<rparr>) =
     (\<lparr>status = 200, payload = Json_message Produto_atualizado_com_sucesso\<rparr>,
      Table \<lparr>rows = [\<lparr>Id_col = 1, Nome = ''Brinde'', Descricao = ''Gratis'', Preco = 0\<rparr>],
             auto_increment = 2\<rparr>,
      [(''UPDATE produto SET Nome = ?, Descricao = ?, Preco = ? WHERE Id = ?'',
        [JStr ''Brinde'', JStr ''Gratis'', JNum 0, JStr ''1''])]) \<and>
   post_produtos demo_env (Body (fields (JNum 0) (JStr ''Gratis'') (JNum 0))) (Table fresh_table) =
     (\<lparr>status = 400, payload = Json_error Campos_obrigatorios_Nome_Descricao_Preco\<rparr>, Table fresh_table, []) \<and>
   put_produtos_id demo_env ''1'' (Body (fields (JStr ''Brinde'') (JStr []) (JNum 0))) (Table fresh_table) =
     (\<lparr>status = 400, payload = Json_error Campos_obrigatorios_Nome_Descricao_Preco\<rparr>, Table fresh_table, [])"
proof -
  have ok: "fields (JStr ''Brinde'') (JStr ''Gratis'') (JNum 0) ''Nome'' = JStr ''Brinde'' \<and>
      ''Brinde'' \<noteq> [] \<and> length ''Brinde'' \<le> 255 \<and>
      fields (JStr ''Brinde'') (JStr ''Gratis'') (JNum 0) ''Descricao'' = JStr ''Gratis'' \<and>
      ''Gratis'' \<noteq> [] \<and> length ''Gratis'' \<le> 255 \<and>
      fields (JStr ''Brinde'') (JStr ''Gratis'') (JNum 0) ''Preco'' = JNum 0"
    by simp
  note main = C10_preco_zero [THEN conjunct1, rule_format, OF ok]
  have c: "post_produtos demo_env (Body (fields (JStr ''Brinde'') (JStr ''Gratis'') (JNum 0))) (Table fresh_table) =
     (\<lparr>status = 201, payload = Json_id 1\<rparr>,
      Table \<lparr>rows = [\<lparr>Id_col = 1, Nome = ''Brinde'', Descricao = ''Gratis'', Preco = 0\<rparr>],
             auto_increment = 2\<rparr>,
      [(''INSERT INTO produto (Nome, Descricao, Preco) VALUES (?, ?, ?)'',
        [JStr ''Brinde'', JStr ''Gratis'', JNum 0])])"
    using main [THEN conjunct2, THEN conjunct2, THEN conjunct1, rule_format,
        where t = fresh_table and E = demo_env]
    by (simp add: fresh_table_def)
  have u: "put_produtos_id demo_env ''1'' (Body (fields (JStr ''Brinde'') (JStr ''Gratis'') (JNum 0)))
     (Table \<lparr>rows = [\<lparr>Id_col = 1, Nome = ''Caneta'', Descricao = ''Azul'', Preco = 5 / 2\<rparr>],
             auto_increment = 2\<rparr>) =
     (\<lparr>status = 200, payload = Json_message Produto_atualizado_com_sucesso\<rparr>,
      Table \<lparr>rows = [\<lparr>Id_col = 1, Nome = ''Brinde'', Descricao = ''Gratis'', Preco = 0\<rparr>],
             auto_increment = 2\<rparr>,
      [(''UPDATE produto SET Nome = ?, Descricao = ?, Preco = ? WHERE Id = ?'',
        [JStr ''Brinde'', JStr ''Gratis'', JNum 0, JStr ''1''])])"
    using main [THEN conjunct2, THEN conjunct2, THEN conjunct2, rule_format,
        where t = "\<lparr>rows = [\<lparr>Id_col = 1, Nome = ''Caneta'', Descricao = ''Azul'', Preco = 5 / 2\<rparr>],
             auto_increment = 2\<rparr>" and i = "''1''" and E = demo_env]
    by simp
  have r1: "post_produtos demo_env (Body (fields (JNum 0) (JStr ''Gratis'') (JNum 0))) (Table fresh_table) =
     (\<lparr>status = 400, payload = Json_error Campos_obrigatorios_Nome_Descricao_Preco\<rparr>, Table fresh_table, [])"
    using C10_preco_zero [THEN conjunct2, rule_format,
        where b = "fields (JNum 0) (JStr ''Gratis'') (JNum 0)" and E = demo_env
          and s = "Table fresh_table" and i = "''1''"]
    by simp
  have r2: "put_produtos_id demo_env ''1'' (Body (fields (JStr ''Brinde'') (JStr []) (JNum 0))) (Table fresh_table) =
     (\<lparr>status = 400, payload = Json_error Campos_obrigatorios_Nome_Descricao_Preco\<rparr>, Table fresh_table, [])"
    using C10_preco_zero [THEN conjunct2, rule_format,
        where b = "fields (JStr ''Brinde'') (JStr []) (JNum 0)" and E = demo_env
          and s = "Table fresh_table" and i = "''1''"]
    by simp
  show ?thesis using c u r1 r2 by simp
qed

end
